theory Spec2Isabelle
  imports Main "HOL-Library.Sublist"
begin

section \<open>Platform services and JavaScript string primitives\<close>

text \<open>
  The repository is TypeScript. Strings are \<^typ>\<open>string\<close>, \<open>null\<close>/\<open>undefined\<close> is
  \<^const>\<open>None\<close>, timestamps are milliseconds since the epoch (what \<open>Date.now()\<close> and
  \<open>new Date(iso).getTime()\<close> return) as \<^typ>\<open>nat\<close>. A handler reads the clock once: every
  \<open>new Date()\<close> of one request is the argument \<open>now\<close>.

  Services of the runtime that are not code of the repository are parameters, collected in
  the record \<open>platform\<close>: the SHA-256 digest in its two encodings (Node's \<open>createHash\<close>, the
  worker's \<open>crypto.subtle.digest\<close>) and the host name the WHATWG \<open>URL\<close> parser extracts
  (\<^const>\<open>None\<close> when \<open>new URL(u)\<close> throws). Random bytes and fresh row ids
  (\<open>gen_random_uuid()\<close>) are arguments of the handler that draws them.
\<close>

type_synonym timestamp = nat

record platform =
  sha256_hex :: "string \<Rightarrow> string"
  sha256_base64url :: "string \<Rightarrow> string"
  url_hostname :: "string \<Rightarrow> string option"

text \<open>\<open>s.split(c)\<close> for a one-character separator: \<open>''''.split(' ')\<close> is \<open>['''']\<close>.\<close>

fun split_on :: "char \<Rightarrow> string \<Rightarrow> string list" where
  "split_on c [] = [[]]"
| "split_on c (x # xs) =
     (if x = c then [] # split_on c xs
      else (case split_on c xs of
              [] \<Rightarrow> [[x]]
            | w # ws \<Rightarrow> (x # w) # ws))"

text \<open>\<open>s.includes(sub)\<close>.\<close>

fun str_includes :: "string \<Rightarrow> string \<Rightarrow> bool" where
  "str_includes [] sub = (sub = [])"
| "str_includes (x # xs) sub = (prefix sub (x # xs) \<or> str_includes xs sub)"

text \<open>\<open>s.toLowerCase()\<close> on the ASCII letters.\<close>

definition lower_char :: "char \<Rightarrow> char" where
  "lower_char c =
     (let n = (of_char c :: nat) in if 65 \<le> n \<and> n \<le> 90 then char_of (n + 32) else c)"

definition toLowerCase :: "string \<Rightarrow> string" where
  "toLowerCase s = map lower_char s"

text \<open>JavaScript truthiness of an optional string: \<open>null\<close>, \<open>undefined\<close> and \<open>''''\<close> are falsy.
  \<open>truthy v\<close> is also \<open>v || undefined\<close>.\<close>

definition truthy :: "string option \<Rightarrow> string option" where
  "truthy v = (case v of None \<Rightarrow> None | Some s \<Rightarrow> if s = [] then None else Some s)"

text \<open>\<open>String(n)\<close> for a non-negative integer, and \<open>parseInt(s, 10)\<close>: leading white space, an
  optional sign, then the longest run of decimal digits; \<^const>\<open>None\<close> is \<open>NaN\<close>.\<close>

definition digit_char :: "nat \<Rightarrow> char" where
  "digit_char d = ''0123456789'' ! d"

fun string_of_nat :: "nat \<Rightarrow> string" where
  "string_of_nat n =
     (if n < 10 then [digit_char n] else string_of_nat (n div 10) @ [digit_char (n mod 10)])"

definition is_digit :: "char \<Rightarrow> bool" where
  "is_digit c = (c \<in> set ''0123456789'')"

definition digit_val :: "char \<Rightarrow> nat" where
  "digit_val c = (of_char c :: nat) - 48"

definition is_space :: "char \<Rightarrow> bool" where
  "is_space c = (c \<in> set [CHR '' '', CHR 0x09, CHR 0x0A, CHR 0x0B, CHR 0x0C, CHR 0x0D])"

definition digits_value :: "string \<Rightarrow> nat" where
  "digits_value ds = foldl (\<lambda>acc c. 10 * acc + digit_val c) 0 ds"

definition parseInt :: "string \<Rightarrow> int option" where
  "parseInt s =
     (let t = dropWhile is_space s;
          neg = (t \<noteq> [] \<and> hd t = CHR ''-'');
          u = (if t \<noteq> [] \<and> (hd t = CHR ''-'' \<or> hd t = CHR ''+'') then tl t else t);
          ds = takeWhile is_digit u
      in if ds = [] then None
         else Some (if neg then - int (digits_value ds) else int (digits_value ds)))"

section \<open>Token codec (src/lib/oauth/index.ts)\<close>

definition PREFIX_ACCESS :: string where "PREFIX_ACCESS = ''sha_kb_''"
definition PREFIX_REFRESH :: string where "PREFIX_REFRESH = ''shr_kb_''"
definition PREFIX_CODE :: string where "PREFIX_CODE = ''shc_''"
definition PREFIX_CLIENT_SECRET :: string where "PREFIX_CLIENT_SECRET = ''mcp_secret_''"

text \<open>\<open>TOKEN_EXPIRY\<close>, in seconds.\<close>

definition EXPIRY_ACCESS_TOKEN :: nat where "EXPIRY_ACCESS_TOKEN = 60 * 60"
definition EXPIRY_REFRESH_TOKEN :: nat where "EXPIRY_REFRESH_TOKEN = 60 * 60 * 24 * 30"
definition EXPIRY_AUTH_CODE :: nat where "EXPIRY_AUTH_CODE = 60 * 10"

definition OAUTH_SCOPES :: "string list" where
  "OAUTH_SCOPES = [''search'', ''list_sources'', ''get_info'']"

definition DEFAULT_SCOPES :: "string list" where
  "DEFAULT_SCOPES = [''search'', ''list_sources'', ''get_info'']"

text \<open>\<open>generateToken(prefix, length)\<close>: the argument \<open>random\<close> is
  \<open>randomBytes(length).toString('base64url')\<close>.\<close>

definition generateToken :: "string \<Rightarrow> string \<Rightarrow> string" where
  "generateToken pfx random = pfx @ random"

definition hashToken :: "platform \<Rightarrow> string \<Rightarrow> string" where
  "hashToken P token = sha256_hex P token"

definition generateAccessToken :: "string \<Rightarrow> string \<Rightarrow> string" where
  "generateAccessToken kbId random =
     (let shortKbId = hd (split_on CHR ''-'' kbId)
      in generateToken (PREFIX_ACCESS @ shortKbId @ ''_'') random)"

definition generateRefreshToken :: "string \<Rightarrow> string \<Rightarrow> string" where
  "generateRefreshToken kbId random =
     (let shortKbId = hd (split_on CHR ''-'' kbId)
      in generateToken (PREFIX_REFRESH @ shortKbId @ ''_'') random)"

definition generateAuthCode :: "string \<Rightarrow> string" where
  "generateAuthCode random = generateToken PREFIX_CODE random"

text \<open>The method has the TypeScript type \<open>'S256' | 'plain'\<close>, erased at run time: every
  value but \<open>'plain'\<close> takes the S256 branch.\<close>

definition validateCodeChallenge :: "platform \<Rightarrow> string \<Rightarrow> string \<Rightarrow> string \<Rightarrow> bool" where
  "validateCodeChallenge P codeVerifier codeChallenge method =
     (if method = ''plain'' then codeVerifier = codeChallenge
      else (let computedChallenge = sha256_base64url P codeVerifier
            in computedChallenge = codeChallenge))"

definition generateCodeChallenge :: "platform \<Rightarrow> string \<Rightarrow> string \<Rightarrow> string" where
  "generateCodeChallenge P codeVerifier method =
     (if method = ''plain'' then codeVerifier else sha256_base64url P codeVerifier)"

definition parseScopes :: "string option \<Rightarrow> string list" where
  "parseScopes scopeString =
     (case truthy scopeString of
        None \<Rightarrow> DEFAULT_SCOPES
      | Some s \<Rightarrow>
          (let requestedScopes = filter (\<lambda>e. e \<noteq> []) (split_on CHR '' '' s);
               validScopes = filter (\<lambda>e. e \<in> set OAUTH_SCOPES) requestedScopes
           in if length validScopes > 0 then validScopes else DEFAULT_SCOPES))"

definition isValidRedirectUri :: "platform \<Rightarrow> string \<Rightarrow> string list \<Rightarrow> bool" where
  "isValidRedirectUri P uri allowedUris =
     (case url_hostname P uri of
        None \<Rightarrow> False
      | Some hostname \<Rightarrow>
          if hostname = ''localhost'' \<or> hostname = ''127.0.0.1'' then True
          else list_ex (\<lambda>allowed.
                 if uri = allowed then True
                 else if prefix ''*.'' allowed then suffix (drop 2 allowed) hostname
                 else False) allowedUris)"

text \<open>\<open>OAUTH_ERRORS\<close>.\<close>

definition INVALID_REQUEST :: string where "INVALID_REQUEST = ''invalid_request''"
definition ACCESS_DENIED :: string where "ACCESS_DENIED = ''access_denied''"
definition UNSUPPORTED_RESPONSE_TYPE :: string where
  "UNSUPPORTED_RESPONSE_TYPE = ''unsupported_response_type''"
definition INVALID_SCOPE :: string where "INVALID_SCOPE = ''invalid_scope''"
definition SERVER_ERROR :: string where "SERVER_ERROR = ''server_error''"
definition INVALID_CLIENT :: string where "INVALID_CLIENT = ''invalid_client''"
definition INVALID_GRANT :: string where "INVALID_GRANT = ''invalid_grant''"
definition UNSUPPORTED_GRANT_TYPE :: string where
  "UNSUPPORTED_GRANT_TYPE = ''unsupported_grant_type''"

text \<open>
  What a route handler of the web application answers. \<open>Uncaught\<close> is a handler that threw
  (the framework answers 500). A redirect carries its target and the query parameters
  set on it.
\<close>

datatype response =
    OAuthErrorJson string string
  | OAuthErrorRedirect string string string "string option"
  | Redirect string "(string \<times> string) list"
  | TokenJson string string nat string string
  | JsonMessage nat string
  | InstallJson string "string option"
  | EmptyStatus nat
  | Uncaught

fun status :: "response \<Rightarrow> nat" where
  "status (OAuthErrorJson e d) = 400"
| "status (OAuthErrorRedirect uri e d st) = 302"
| "status (Redirect uri ps) = 307"
| "status (TokenJson a ty ex r sc) = 200"
| "status (JsonMessage n m) = n"
| "status (InstallJson tok sub) = 200"
| "status (EmptyStatus n) = n"
| "status Uncaught = 500"

text \<open>The OAuth error code of an answer, if it is an OAuth error.\<close>

fun oauth_error_code :: "response \<Rightarrow> string option" where
  "oauth_error_code (OAuthErrorJson e d) = Some e"
| "oauth_error_code (OAuthErrorRedirect uri e d st) = Some e"
| "oauth_error_code r = None"

text \<open>\<open>oauthError(error, description, redirectUri?, state?)\<close>; \<open>new URL(redirectUri)\<close>
  throws on a string that is no URL.\<close>

definition oauthError ::
  "platform \<Rightarrow> string \<Rightarrow> string \<Rightarrow> string option \<Rightarrow> string option \<Rightarrow> response" where
  "oauthError P error description redirectUri state =
     (case truthy redirectUri of
        Some uri \<Rightarrow>
          (case url_hostname P uri of
             None \<Rightarrow> Uncaught
           | Some h \<Rightarrow> OAuthErrorRedirect uri error description (truthy state))
      | None \<Rightarrow> OAuthErrorJson error description)"

section \<open>Credential store (supabase/migrations)\<close>

text \<open>
  One record per table, with the columns the handlers read or write; a table is the list
  of its rows. Columns declared \<open>NOT NULL\<close>, or set by every insert of the repository and
  dereferenced without a check, are plain values, the others are options. The
  \<open>CHECK\<close>-constrained text columns of \<open>knowledge_bases\<close> and \<open>kb_subscriptions\<close> are
  datatypes. Row-level security is not modelled: every query sees the whole table, as the
  service-role client does. \<open>UNIQUE\<close> and \<open>PRIMARY KEY\<close> constraints are checked by the
  insert and update operations below, which is how a statement of a handler fails.
\<close>

datatype visibility = Private | Public
datatype pricing_model = Free | Paid
datatype sub_status = Active | Canceled | PastDue | Expired | Trialing

record knowledge_base =
  kb_id :: string
  kb_user_id :: string
  kb_name :: string
  kb_slug :: string
  kb_visibility :: visibility
  kb_pricing_model :: pricing_model
  kb_mcp_enabled :: bool

record oauth_client =
  oc_client_id :: string
  oc_knowledge_base_id :: string
  oc_user_id :: string
  oc_redirect_uris :: "string list option"
  oc_scopes :: "string list option"
  oc_revoked_at :: "timestamp option"

record oauth_code =
  code_id :: string
  code_hash :: string
  code_client_id :: string
  code_knowledge_base_id :: string
  code_user_id :: string
  code_redirect_uri :: string
  code_scopes :: "string list"
  code_challenge :: "string option"
  code_challenge_method :: "string option"
  code_expires_at :: timestamp
  code_used_at :: "timestamp option"

record oauth_token =
  tok_id :: string
  tok_client_id :: string
  tok_knowledge_base_id :: string
  tok_user_id :: string
  access_token_hash :: string
  refresh_token_hash :: "string option"
  tok_scopes :: "string list"
  tok_expires_at :: timestamp
  refresh_expires_at :: "timestamp option"
  last_used_at :: "timestamp option"
  subscription_id :: "string option"

record kb_subscription =
  sub_id :: string
  sub_knowledge_base_id :: string
  subscriber_id :: string
  sub_status :: sub_status
  current_period_end :: "timestamp option"

record mcp_request_log =
  log_knowledge_base_id :: string
  log_client_id :: "string option"
  log_method :: string
  log_query :: "string option"
  log_duration_ms :: nat
  log_status_code :: nat

record database =
  knowledge_bases :: "knowledge_base list"
  oauth_clients :: "oauth_client list"
  oauth_codes :: "oauth_code list"
  oauth_tokens :: "oauth_token list"
  kb_subscriptions :: "kb_subscription list"
  mcp_requests :: "mcp_request_log list"

text \<open>PostgREST's \<open>.single()\<close>: the row when the query selects exactly one, an error (and
  \<open>data = null\<close>) otherwise.\<close>

definition single_row :: "'a list \<Rightarrow> 'a option" where
  "single_row rows = (case rows of [r] \<Rightarrow> Some r | _ \<Rightarrow> None)"

text \<open>The row a foreign key to \<open>knowledge_bases(id)\<close> joins (\<open>id\<close> is the primary key).\<close>

definition kb_by_id :: "database \<Rightarrow> string \<Rightarrow> knowledge_base option" where
  "kb_by_id db kid = find (\<lambda>k. kb_id k = kid) (knowledge_bases db)"

text \<open>\<open>insert\<close> into \<open>oauth_codes\<close>: \<open>id\<close> is the primary key, \<open>code_hash\<close> is \<open>UNIQUE\<close>.\<close>

definition insert_code :: "oauth_code \<Rightarrow> database \<Rightarrow> database option" where
  "insert_code row db =
     (if list_ex (\<lambda>r. code_id r = code_id row \<or> code_hash r = code_hash row) (oauth_codes db)
      then None
      else Some (db\<lparr>oauth_codes := oauth_codes db @ [row]\<rparr>))"

text \<open>\<open>update({used_at: now}).eq('id', id)\<close> on \<open>oauth_codes\<close>.\<close>

definition mark_code_used :: "timestamp \<Rightarrow> string \<Rightarrow> database \<Rightarrow> database" where
  "mark_code_used now cid db =
     db\<lparr>oauth_codes :=
          map (\<lambda>r. if code_id r = cid then r\<lparr>code_used_at := Some now\<rparr> else r) (oauth_codes db)\<rparr>"

text \<open>\<open>insert\<close> into \<open>oauth_tokens\<close>: \<open>id\<close> is the primary key, \<open>access_token_hash\<close> and
  \<open>refresh_token_hash\<close> are \<open>UNIQUE\<close> (a \<open>NULL\<close> conflicts with nothing).\<close>

definition token_conflict :: "oauth_token \<Rightarrow> oauth_token \<Rightarrow> bool" where
  "token_conflict row t =
     (access_token_hash t = access_token_hash row \<or>
      (refresh_token_hash row \<noteq> None \<and> refresh_token_hash t = refresh_token_hash row))"

definition insert_token :: "oauth_token \<Rightarrow> database \<Rightarrow> database option" where
  "insert_token row db =
     (if list_ex (\<lambda>t. tok_id t = tok_id row \<or> token_conflict row t) (oauth_tokens db)
      then None
      else Some (db\<lparr>oauth_tokens := oauth_tokens db @ [row]\<rparr>))"

text \<open>The rotation \<open>update({...}).eq('id', id)\<close> on \<open>oauth_tokens\<close>; it fails when a row
  with another id already holds one of the new hashes.\<close>

definition rotate_token ::
  "string \<Rightarrow> string \<Rightarrow> string \<Rightarrow> timestamp \<Rightarrow> timestamp \<Rightarrow> timestamp \<Rightarrow> oauth_token \<Rightarrow> oauth_token" where
  "rotate_token tid newAccessTokenHash newRefreshTokenHash accessExpires refreshExpires now t =
     (if tok_id t = tid
      then t\<lparr>access_token_hash := newAccessTokenHash,
             refresh_token_hash := Some newRefreshTokenHash,
             tok_expires_at := accessExpires,
             refresh_expires_at := Some refreshExpires,
             last_used_at := Some now\<rparr>
      else t)"

definition update_token_rotation ::
  "string \<Rightarrow> string \<Rightarrow> string \<Rightarrow> timestamp \<Rightarrow> timestamp \<Rightarrow> timestamp \<Rightarrow> database \<Rightarrow> database option" where
  "update_token_rotation tid newAccessTokenHash newRefreshTokenHash accessExpires refreshExpires now db =
     (if list_ex (\<lambda>t. tok_id t \<noteq> tid \<and>
                      (access_token_hash t = newAccessTokenHash \<or>
                       refresh_token_hash t = Some newRefreshTokenHash)) (oauth_tokens db)
      then None
      else Some (db\<lparr>oauth_tokens :=
                      map (rotate_token tid newAccessTokenHash newRefreshTokenHash
                             accessExpires refreshExpires now) (oauth_tokens db)\<rparr>))"

text \<open>\<open>Array.prototype.join\<close>.\<close>

fun join :: "string \<Rightarrow> string list \<Rightarrow> string" where
  "join sep [] = []"
| "join sep [x] = x"
| "join sep (x # y # ys) = x @ sep @ join sep (y # ys)"

section \<open>Token endpoint (POST /api/oauth/token)\<close>

text \<open>A parsed request body is a \<open>Record<string, string>\<close>; the random strings a handler
  draws and the id the database gives a new row are the record \<open>entropy\<close>.\<close>

type_synonym form = "string \<Rightarrow> string option"

record entropy =
  rand_access :: string
  rand_refresh :: string
  rand_code :: string
  rand_client :: string
  rand_secret :: string
  fresh_id :: string

definition handleAuthorizationCode ::
  "platform \<Rightarrow> timestamp \<Rightarrow> entropy \<Rightarrow> database \<Rightarrow> form \<Rightarrow> database \<times> response" where
  "handleAuthorizationCode P now rnd db body =
     (case (truthy (body ''code''), truthy (body ''redirect_uri''),
            truthy (body ''client_id''), truthy (body ''code_verifier'')) of
        (Some code, Some redirect_uri, Some client_id, Some code_verifier) \<Rightarrow>
          (let codeHash = hashToken P code in
           case single_row (filter (\<lambda>r. code_hash r = codeHash \<and> code_used_at r = None)
                              (oauth_codes db)) of
             None \<Rightarrow>
               (db, oauthError P INVALID_GRANT ''Invalid or expired authorization code'' None None)
           | Some authCode \<Rightarrow>
               if code_expires_at authCode < now then
                 (mark_code_used now (code_id authCode) db,
                  oauthError P INVALID_GRANT ''Authorization code has expired'' None None)
               else if code_client_id authCode \<noteq> client_id then
                 (db, oauthError P INVALID_GRANT ''Client ID mismatch'' None None)
               else if code_redirect_uri authCode \<noteq> redirect_uri then
                 (db, oauthError P INVALID_GRANT ''Redirect URI mismatch'' None None)
               else
                 (let challengeMethod =
                        (case truthy (code_challenge_method authCode) of
                           None \<Rightarrow> ''S256'' | Some m \<Rightarrow> m);
                      challenge =
                        (case truthy (code_challenge authCode) of None \<Rightarrow> [] | Some c \<Rightarrow> c)
                  in if \<not> validateCodeChallenge P code_verifier challenge challengeMethod then
                       (db, oauthError P INVALID_GRANT ''Invalid code verifier'' None None)
                     else
                       (let db1 = mark_code_used now (code_id authCode) db;
                            accessToken =
                              generateAccessToken (code_knowledge_base_id authCode) (rand_access rnd);
                            refreshToken =
                              generateRefreshToken (code_knowledge_base_id authCode) (rand_refresh rnd);
                            accessTokenHash = hashToken P accessToken;
                            refreshTokenHash = hashToken P refreshToken;
                            accessExpires = now + EXPIRY_ACCESS_TOKEN * 1000;
                            refreshExpires = now + EXPIRY_REFRESH_TOKEN * 1000;
                            row = \<lparr>tok_id = fresh_id rnd,
                                   tok_client_id = code_client_id authCode,
                                   tok_knowledge_base_id = code_knowledge_base_id authCode,
                                   tok_user_id = code_user_id authCode,
                                   access_token_hash = accessTokenHash,
                                   refresh_token_hash = Some refreshTokenHash,
                                   tok_scopes = code_scopes authCode,
                                   tok_expires_at = accessExpires,
                                   refresh_expires_at = Some refreshExpires,
                                   last_used_at = None,
                                   subscription_id = None\<rparr>
                        in case insert_token row db1 of
                             None \<Rightarrow>
                               (db1, oauthError P SERVER_ERROR ''Failed to generate tokens'' None None)
                           | Some db2 \<Rightarrow>
                               (db2, TokenJson accessToken ''Bearer'' EXPIRY_ACCESS_TOKEN refreshToken
                                       (join '' '' (code_scopes authCode))))))
      | _ \<Rightarrow>
          (db, oauthError P INVALID_REQUEST
                 ''Missing required parameters: code, redirect_uri, client_id, code_verifier''
                 None None))"

definition handleRefreshToken ::
  "platform \<Rightarrow> timestamp \<Rightarrow> entropy \<Rightarrow> database \<Rightarrow> form \<Rightarrow> database \<times> response" where
  "handleRefreshToken P now rnd db body =
     (case truthy (body ''refresh_token'') of
        None \<Rightarrow> (db, oauthError P INVALID_REQUEST ''Missing refresh_token'' None None)
      | Some refresh_token \<Rightarrow>
          (let refreshTokenHash = hashToken P refresh_token in
           case single_row (filter (\<lambda>t. refresh_token_hash t = Some refreshTokenHash)
                              (oauth_tokens db)) of
             None \<Rightarrow> (db, oauthError P INVALID_GRANT ''Invalid refresh token'' None None)
           | Some existingToken \<Rightarrow>
               if (case refresh_expires_at existingToken of
                     None \<Rightarrow> False | Some e \<Rightarrow> e < now) then
                 (db\<lparr>oauth_tokens :=
                       filter (\<lambda>t. tok_id t \<noteq> tok_id existingToken) (oauth_tokens db)\<rparr>,
                  oauthError P INVALID_GRANT ''Refresh token has expired'' None None)
               else if (case truthy (body ''client_id'') of
                          None \<Rightarrow> False
                        | Some client_id \<Rightarrow> tok_client_id existingToken \<noteq> client_id) then
                 (db, oauthError P INVALID_GRANT ''Client ID mismatch'' None None)
               else
                 (let newAccessToken =
                        generateAccessToken (tok_knowledge_base_id existingToken) (rand_access rnd);
                      newRefreshToken =
                        generateRefreshToken (tok_knowledge_base_id existingToken) (rand_refresh rnd);
                      newAccessTokenHash = hashToken P newAccessToken;
                      newRefreshTokenHash = hashToken P newRefreshToken;
                      accessExpires = now + EXPIRY_ACCESS_TOKEN * 1000;
                      refreshExpires = now + EXPIRY_REFRESH_TOKEN * 1000
                  in case update_token_rotation (tok_id existingToken) newAccessTokenHash
                            newRefreshTokenHash accessExpires refreshExpires now db of
                       None \<Rightarrow> (db, oauthError P SERVER_ERROR ''Failed to refresh tokens'' None None)
                     | Some db1 \<Rightarrow>
                         (db1, TokenJson newAccessToken ''Bearer'' EXPIRY_ACCESS_TOKEN newRefreshToken
                                 (join '' '' (tok_scopes existingToken))))))"

text \<open>The request: its \<open>content-type\<close> header and the body as \<open>request.formData()\<close> or
  \<open>request.json()\<close> parses it (\<^const>\<open>None\<close> when the parser throws).\<close>

definition POST_token ::
  "platform \<Rightarrow> timestamp \<Rightarrow> entropy \<Rightarrow> database \<Rightarrow> string option \<Rightarrow> form option
     \<Rightarrow> database \<times> response" where
  "POST_token P now rnd db contentTypeHeader parsed =
     (let contentType = (case truthy contentTypeHeader of None \<Rightarrow> [] | Some c \<Rightarrow> c) in
      if str_includes contentType ''application/x-www-form-urlencoded''
         \<or> str_includes contentType ''application/json'' then
        (case parsed of
           None \<Rightarrow> (db, Uncaught)
         | Some body \<Rightarrow>
             (let grantType = body ''grant_type'' in
              if grantType = Some ''authorization_code'' then handleAuthorizationCode P now rnd db body
              else if grantType = Some ''refresh_token'' then handleRefreshToken P now rnd db body
              else (db, oauthError P UNSUPPORTED_GRANT_TYPE
                          ''Supported grant types: authorization_code, refresh_token'' None None)))
      else (db, oauthError P INVALID_REQUEST ''Unsupported content type'' None None))"

section \<open>Revocation endpoint (POST /api/oauth/revoke)\<close>

definition POST_revoke ::
  "platform \<Rightarrow> database \<Rightarrow> string option \<Rightarrow> form option \<Rightarrow> database \<times> response" where
  "POST_revoke P db contentTypeHeader parsed =
     (let contentType = (case truthy contentTypeHeader of None \<Rightarrow> [] | Some c \<Rightarrow> c) in
      if str_includes contentType ''application/x-www-form-urlencoded''
         \<or> str_includes contentType ''application/json'' then
        (case parsed of
           None \<Rightarrow> (db, Uncaught)
         | Some body \<Rightarrow>
             (case truthy (body ''token'') of
                None \<Rightarrow> (db, oauthError P INVALID_REQUEST ''Missing token parameter'' None None)
              | Some token \<Rightarrow>
                  (let tokenHash = hashToken P token in
                   if body ''token_type_hint'' = Some ''refresh_token'' then
                     (db\<lparr>oauth_tokens :=
                           filter (\<lambda>t. refresh_token_hash t \<noteq> Some tokenHash) (oauth_tokens db)\<rparr>,
                      EmptyStatus 200)
                   else
                     (let deleted = filter (\<lambda>t. access_token_hash t = tokenHash) (oauth_tokens db);
                          db1 = db\<lparr>oauth_tokens :=
                                     filter (\<lambda>t. access_token_hash t \<noteq> tokenHash) (oauth_tokens db)\<rparr>
                      in if length deleted = 0 then
                           (db1\<lparr>oauth_tokens :=
                                  filter (\<lambda>t. refresh_token_hash t \<noteq> Some tokenHash)
                                    (oauth_tokens db1)\<rparr>,
                            EmptyStatus 200)
                         else (db1, EmptyStatus 200)))))
      else (db, oauthError P INVALID_REQUEST ''Unsupported content type'' None None))"

section \<open>Authorization endpoint (GET /api/oauth/authorize)\<close>

text \<open>\<open>user\<close> is the id of the session's user (\<open>supabase.auth.getUser()\<close>), \<open>url\<close> the
  request URL and \<open>searchParams\<close> its query.\<close>

definition GET_authorize ::
  "platform \<Rightarrow> timestamp \<Rightarrow> entropy \<Rightarrow> string option \<Rightarrow> database \<Rightarrow> string \<Rightarrow> form
     \<Rightarrow> database \<times> response" where
  "GET_authorize P now rnd user db url searchParams =
     (let scope = searchParams ''scope'';
          state = searchParams ''state''
      in
      case truthy (searchParams ''client_id'') of
        None \<Rightarrow> (db, oauthError P INVALID_REQUEST ''client_id is required'' None None)
      | Some clientId \<Rightarrow>
      (case truthy (searchParams ''redirect_uri'') of
        None \<Rightarrow> (db, oauthError P INVALID_REQUEST ''redirect_uri is required'' None None)
      | Some redirectUri \<Rightarrow>
      if searchParams ''response_type'' \<noteq> Some ''code'' then
        (db, oauthError P UNSUPPORTED_RESPONSE_TYPE ''Only response_type=code is supported''
               (Some redirectUri) (truthy state))
      else
      (case truthy (searchParams ''code_challenge'') of
        None \<Rightarrow>
          (db, oauthError P INVALID_REQUEST ''code_challenge is required (PKCE)''
                 (Some redirectUri) (truthy state))
      | Some codeChallenge \<Rightarrow>
      if searchParams ''code_challenge_method'' \<noteq> Some ''S256'' then
        (db, oauthError P INVALID_REQUEST ''code_challenge_method must be S256''
               (Some redirectUri) (truthy state))
      else
      (case user of
        None \<Rightarrow> (db, Redirect ''/login'' [(''returnTo'', url)])
      | Some userId \<Rightarrow>
      (case single_row (filter (\<lambda>c. oc_client_id c = clientId \<and> oc_revoked_at c = None \<and>
                                   kb_by_id db (oc_knowledge_base_id c) \<noteq> None)
                          (oauth_clients db)) of
        None \<Rightarrow>
          (db, oauthError P INVALID_CLIENT ''Invalid or revoked client''
                 (Some redirectUri) (truthy state))
      | Some client \<Rightarrow>
      if map_option kb_user_id (kb_by_id db (oc_knowledge_base_id client)) \<noteq> Some userId then
        (db, oauthError P ACCESS_DENIED ''You do not have permission to authorize this client''
               (Some redirectUri) (truthy state))
      else
      (let allowedUris = (case oc_redirect_uris client of None \<Rightarrow> [] | Some us \<Rightarrow> us) in
       if \<not> isValidRedirectUri P redirectUri allowedUris then
         (db, oauthError P INVALID_REQUEST ''Invalid redirect_uri'' None None)
       else
       (let requestedScopes = parseScopes scope;
            allowedScopes = (case oc_scopes client of None \<Rightarrow> [] | Some ss \<Rightarrow> ss);
            validScopes = filter (\<lambda>s. s \<in> set allowedScopes) requestedScopes
        in
        if length validScopes = 0 then
          (db, oauthError P INVALID_SCOPE ''No valid scopes requested''
                 (Some redirectUri) (truthy state))
        else
        (let authCode = generateAuthCode (rand_code rnd);
             codeHash = hashToken P authCode;
             row = \<lparr>code_id = fresh_id rnd,
                    code_hash = codeHash,
                    code_client_id = clientId,
                    code_knowledge_base_id = oc_knowledge_base_id client,
                    code_user_id = userId,
                    code_redirect_uri = redirectUri,
                    code_scopes = validScopes,
                    code_challenge = Some codeChallenge,
                    code_challenge_method = Some ''S256'',
                    code_expires_at = now + EXPIRY_AUTH_CODE * 1000,
                    code_used_at = None\<rparr>
         in case insert_code row db of
              None \<Rightarrow>
                (db, oauthError P SERVER_ERROR ''Failed to generate authorization code''
                       (Some redirectUri) (truthy state))
            | Some db1 \<Rightarrow>
                (db1, Redirect redirectUri
                        ((''code'', authCode) #
                         (case truthy state of None \<Rightarrow> [] | Some st \<Rightarrow> [(''state'', st)])))))))))))"

section \<open>Client revocation (DELETE /api/oauth/clients)\<close>

definition DELETE_clients ::
  "platform \<Rightarrow> timestamp \<Rightarrow> string option \<Rightarrow> database \<Rightarrow> form option \<Rightarrow> database \<times> response" where
  "DELETE_clients P now user db parsed =
     (case user of
        None \<Rightarrow> (db, JsonMessage 401 ''unauthorized'')
      | Some userId \<Rightarrow>
          (case parsed of
             None \<Rightarrow> (db, Uncaught)
           | Some body \<Rightarrow>
               (case truthy (body ''client_id'') of
                  None \<Rightarrow> (db, oauthError P INVALID_REQUEST ''client_id is required'' None None)
                | Some client_id \<Rightarrow>
                    (let db1 = db\<lparr>oauth_clients :=
                                    map (\<lambda>c. if oc_client_id c = client_id \<and> oc_user_id c = userId
                                              then c\<lparr>oc_revoked_at := Some now\<rparr> else c)
                                      (oauth_clients db)\<rparr>;
                         db2 = db1\<lparr>oauth_tokens :=
                                     filter (\<lambda>t. tok_client_id t \<noteq> client_id) (oauth_tokens db1)\<rparr>
                     in (db2, EmptyStatus 204)))))"

section \<open>Entitlement resolver (src/lib/subscriptions.ts)\<close>

record access_result =
  hasAccess :: bool
  subscription :: "(string \<times> sub_status) option"

definition hasKBAccess :: "timestamp \<Rightarrow> database \<Rightarrow> string \<Rightarrow> string \<Rightarrow> access_result" where
  "hasKBAccess now db knowledgeBaseId userId =
     (case single_row (filter (\<lambda>k. kb_id k = knowledgeBaseId) (knowledge_bases db)) of
        None \<Rightarrow> \<lparr>hasAccess = False, subscription = None\<rparr>
      | Some kb \<Rightarrow>
          if kb_user_id kb = userId then \<lparr>hasAccess = True, subscription = None\<rparr>
          else if kb_visibility kb \<noteq> Public \<or> \<not> kb_mcp_enabled kb then
            \<lparr>hasAccess = False, subscription = None\<rparr>
          else if kb_pricing_model kb = Free then \<lparr>hasAccess = True, subscription = None\<rparr>
          else
            (case single_row
                    (filter (\<lambda>s. sub_knowledge_base_id s = knowledgeBaseId \<and>
                                  subscriber_id s = userId \<and>
                                  sub_status s \<in> set [Active, Trialing])
                       (kb_subscriptions db)) of
               None \<Rightarrow> \<lparr>hasAccess = False, subscription = None\<rparr>
             | Some sub \<Rightarrow>
                 if (case current_period_end sub of None \<Rightarrow> False | Some expiresAt \<Rightarrow> expiresAt < now)
                 then \<lparr>hasAccess = False, subscription = None\<rparr>
                 else \<lparr>hasAccess = True, subscription = Some (sub_id sub, sub_status sub)\<rparr>))"




section \<open>Install-token route (the caller of the entitlement resolver)\<close>



section \<open>Rate limiter (mcp-server/src/utils/rate-limit.ts)\<close>

definition KB_LIMIT :: nat where "KB_LIMIT = 60"
definition CLIENT_LIMIT :: nat where "CLIENT_LIMIT = 30"
definition WINDOW_SIZE :: nat where "WINDOW_SIZE = 60"

text \<open>
  The Workers KV namespace \<open>RATE_LIMITS\<close>: a key holds a value and the time its
  \<open>expirationTtl\<close> runs out; \<open>get\<close> answers \<open>null\<close> for a key that is absent or expired. When
  the store is unreachable \<open>get\<close> and \<open>put\<close> throw.
\<close>

type_synonym kv_store = "string \<Rightarrow> (string \<times> timestamp) option"

definition kv_get :: "timestamp \<Rightarrow> kv_store \<Rightarrow> string \<Rightarrow> string option" where
  "kv_get now kv key =
     (case kv key of None \<Rightarrow> None | Some (v, expires) \<Rightarrow> if now < expires then Some v else None)"

definition kv_put :: "timestamp \<Rightarrow> string \<Rightarrow> string \<Rightarrow> nat \<Rightarrow> kv_store \<Rightarrow> kv_store" where
  "kv_put now key v expirationTtl kv = kv(key \<mapsto> (v, now + expirationTtl * 1000))"

record rate_limit_info =
  allowed :: bool
  remaining :: "int option"
  resetAt :: nat
  limit :: nat

text \<open>\<open>Math.floor(Date.now() / 1000 / WINDOW_SIZE) * WINDOW_SIZE\<close>.\<close>

definition windowStart_of :: "timestamp \<Rightarrow> nat" where
  "windowStart_of now = now div 1000 div WINDOW_SIZE * WINDOW_SIZE"

definition getRateLimitKey :: "timestamp \<Rightarrow> string \<Rightarrow> string option \<Rightarrow> string" where
  "getRateLimitKey now kbId clientId =
     (let windowStart = windowStart_of now in
      case truthy clientId of
        Some c \<Rightarrow> ''rate:'' @ kbId @ '':'' @ c @ '':'' @ string_of_nat windowStart
      | None \<Rightarrow> ''rate:'' @ kbId @ '':'' @ string_of_nat windowStart)"

text \<open>\<open>String(count + 1)\<close> of a number that is an integer or \<open>NaN\<close>.\<close>

definition string_of_number :: "int option \<Rightarrow> string" where
  "string_of_number v =
     (case v of
        None \<Rightarrow> ''NaN''
      | Some i \<Rightarrow> if i < 0 then ''-'' @ string_of_nat (nat (- i)) else string_of_nat (nat i))"

definition checkRateLimit ::
  "timestamp \<Rightarrow> bool \<Rightarrow> kv_store \<Rightarrow> string \<Rightarrow> string option \<Rightarrow> kv_store \<times> rate_limit_info" where
  "checkRateLimit now reachable kv kbId clientId =
     (let key = getRateLimitKey now kbId clientId;
          lim = (case truthy clientId of Some c \<Rightarrow> CLIENT_LIMIT | None \<Rightarrow> KB_LIMIT);
          windowStart = windowStart_of now;
          reset = windowStart + WINDOW_SIZE
      in
      if \<not> reachable then
        (kv, \<lparr>allowed = True, remaining = Some (int lim), resetAt = reset, limit = lim\<rparr>)
      else
        (let currentCount = kv_get now kv key;
             count = (case truthy currentCount of None \<Rightarrow> Some 0 | Some s \<Rightarrow> parseInt s)
         in
         if (case count of None \<Rightarrow> False | Some c \<Rightarrow> c \<ge> int lim) then
           (kv, \<lparr>allowed = False, remaining = Some 0, resetAt = reset, limit = lim\<rparr>)
         else
           (kv_put now key (string_of_number (map_option (\<lambda>c. c + 1) count)) WINDOW_SIZE kv,
            \<lparr>allowed = True, remaining = map_option (\<lambda>c. int lim - c - 1) count,
             resetAt = reset, limit = lim\<rparr>)))"

section \<open>Access-token validation (mcp-server/src/db/supabase.ts, auth/validate.ts)\<close>

record token_validation =
  valid :: bool
  tv_kb :: "knowledge_base option"
  tv_userId :: "string option"
  tv_clientId :: "string option"
  tv_scopes :: "string list option"
  tv_subscriptionId :: "string option"
  tv_error :: "string option"

definition invalid_result :: "string \<Rightarrow> token_validation" where
  "invalid_result msg =
     \<lparr>valid = False, tv_kb = None, tv_userId = None, tv_clientId = None, tv_scopes = None,
      tv_subscriptionId = None, tv_error = Some msg\<rparr>"

text \<open>
  \<open>validateAccessToken\<close>. The select embeds the row \<open>knowledge_bases(*)\<close> the token's foreign
  key joins; were there none, \<open>kb.pricing_model\<close> would throw, which is the result
  \<^const>\<open>None\<close>.
\<close>

definition validateAccessToken ::
  "timestamp \<Rightarrow> database \<Rightarrow> string \<Rightarrow> database \<times> token_validation option" where
  "validateAccessToken now db tokenHash =
     (case single_row (filter (\<lambda>t. access_token_hash t = tokenHash) (oauth_tokens db)) of
        None \<Rightarrow> (db, Some (invalid_result ''Invalid access token''))
      | Some token \<Rightarrow>
          if tok_expires_at token < now then (db, Some (invalid_result ''Access token expired''))
          else
            (case kb_by_id db (tok_knowledge_base_id token) of
               None \<Rightarrow> (db, None)
             | Some kb \<Rightarrow>
                 (let denied =
                        (if kb_pricing_model kb = Paid then
                           (if tok_user_id token = kb_user_id kb then None
                            else
                              (case truthy (subscription_id token) of
                                 Some sid \<Rightarrow>
                                   (case single_row (filter (\<lambda>s. sub_id s = sid) (kb_subscriptions db)) of
                                      None \<Rightarrow> Some ''Subscription required for this knowledge base''
                                    | Some sub \<Rightarrow>
                                        if sub_status sub \<noteq> Active \<and> sub_status sub \<noteq> Trialing then
                                          Some ''Subscription is not active''
                                        else if (case current_period_end sub of
                                                   None \<Rightarrow> False | Some e \<Rightarrow> e < now) then
                                          Some ''Subscription has expired''
                                        else None)
                               | None \<Rightarrow> Some ''Subscription required for this knowledge base''))
                         else None)
                  in case denied of
                       Some msg \<Rightarrow> (db, Some (invalid_result msg))
                     | None \<Rightarrow>
                         (db\<lparr>oauth_tokens :=
                               map (\<lambda>t. if tok_id t = tok_id token then t\<lparr>last_used_at := Some now\<rparr>
                                         else t) (oauth_tokens db)\<rparr>,
                          Some \<lparr>valid = True, tv_kb = Some kb, tv_userId = Some (tok_user_id token),
                                tv_clientId = Some (tok_client_id token),
                                tv_scopes = Some (tok_scopes token),
                                tv_subscriptionId = subscription_id token, tv_error = None\<rparr>))))"

definition getKnowledgeBaseBySlug :: "database \<Rightarrow> string \<Rightarrow> knowledge_base option" where
  "getKnowledgeBaseBySlug db slug =
     single_row (filter (\<lambda>k. kb_slug k = slug \<and> kb_mcp_enabled k) (knowledge_bases db))"

text \<open>\<open>validateToken(authHeader, slug, env)\<close>; the worker's \<open>hashToken\<close> is the same SHA-256
  in hexadecimal.\<close>

definition validateToken ::
  "platform \<Rightarrow> timestamp \<Rightarrow> database \<Rightarrow> string option \<Rightarrow> string
     \<Rightarrow> database \<times> token_validation option" where
  "validateToken P now db authHeader slug =
     (case truthy authHeader of
        None \<Rightarrow> (db, Some (invalid_result ''Missing Authorization header''))
      | Some header \<Rightarrow>
          (let parts = split_on CHR '' '' header in
           if length parts \<noteq> 2 \<or> toLowerCase (parts ! 0) \<noteq> ''bearer'' then
             (db, Some (invalid_result ''Invalid Authorization header format''))
           else
             (let token = parts ! 1 in
              if \<not> prefix ''sha_kb_'' token then (db, Some (invalid_result ''Invalid token format''))
              else
                (case getKnowledgeBaseBySlug db slug of
                   None \<Rightarrow> (db, Some (invalid_result ''Knowledge base not found or MCP not enabled''))
                 | Some kb \<Rightarrow>
                     (let tokenHash = sha256_hex P token in
                      case validateAccessToken now db tokenHash of
                        (db1, None) \<Rightarrow> (db1, None)
                      | (db1, Some tokenResult) \<Rightarrow>
                          if \<not> valid tokenResult then (db1, Some tokenResult)
                          else if map_option kb_id (tv_kb tokenResult) \<noteq> Some (kb_id kb) then
                            (db1, Some (invalid_result ''Token not valid for this knowledge base''))
                          else
                            (db1, Some \<lparr>valid = True, tv_kb = tv_kb tokenResult,
                                        tv_userId = tv_userId tokenResult,
                                        tv_clientId = tv_clientId tokenResult,
                                        tv_scopes = tv_scopes tokenResult,
                                        tv_subscriptionId = None, tv_error = None\<rparr>))))))"

record auth_context =
  ctx_kb :: knowledge_base
  ctx_userId :: string
  ctx_clientId :: string
  ctx_scopes :: "string list"

definition createAuthContext :: "token_validation \<Rightarrow> auth_context option" where
  "createAuthContext result =
     (case (valid result, tv_kb result, truthy (tv_userId result), truthy (tv_clientId result),
            tv_scopes result) of
        (True, Some kb, Some userId, Some clientId, Some scopes) \<Rightarrow>
          Some \<lparr>ctx_kb = kb, ctx_userId = userId, ctx_clientId = clientId, ctx_scopes = scopes\<rparr>
      | _ \<Rightarrow> None)"

section \<open>Protocol gateway (mcp-server/src/index.ts)\<close>

text \<open>
  The JSON body of a request as the handlers inspect it: \<open>request.json()\<close> throws
  (\<open>JsonInvalid\<close>), or yields \<open>null\<close>, a value that is no object, or an object, of which the
  handlers read \<open>jsonrpc\<close>, whether \<open>id\<close> is defined, \<open>method\<close> (when it is a string),
  \<open>params.name\<close> and \<open>params.arguments.query\<close>.
\<close>

record jsonrpc_envelope =
  env_jsonrpc :: "string option"
  env_id_defined :: bool
  env_method :: "string option"
  env_tool_name :: "string option"
  env_query :: "string option"

datatype json_body = JsonInvalid | JsonNull | JsonNonObject | JsonObject jsonrpc_envelope

definition parseMCPRequest :: "json_body \<Rightarrow> jsonrpc_envelope option" where
  "parseMCPRequest body =
     (case body of
        JsonObject req \<Rightarrow>
          if env_jsonrpc req \<noteq> Some ''2.0'' then None
          else if env_method req = None then None
          else Some req
      | _ \<Rightarrow> None)"

record worker_request =
  req_method :: string
  req_path :: string
  req_authorization :: "string option"
  req_accept :: "string option"
  req_body :: json_body

record worker_response =
  w_status :: nat
  w_message :: "string option"
  w_rate :: "rate_limit_info option"

record world =
  store :: database
  rate_limits :: kv_store
  kv_reachable :: bool

text \<open>The route \<open>/^\/mcp\/([a-z0-9-]+)$/\<close>.\<close>

definition slug_char :: "char \<Rightarrow> bool" where
  "slug_char c =
     (let n = (of_char c :: nat) in (97 \<le> n \<and> n \<le> 122) \<or> (48 \<le> n \<and> n \<le> 57) \<or> c = CHR ''-'')"

definition mcp_route :: "string \<Rightarrow> string option" where
  "mcp_route path =
     (if prefix ''/mcp/'' path \<and> drop 5 path \<noteq> [] \<and> list_all slug_char (drop 5 path)
      then Some (drop 5 path) else None)"

text \<open>The \<open>finally\<close> block of the POST branch: the token is validated once more and, when it
  is valid, the request is logged. An error in it is caught and logged to the console.\<close>

definition log_request ::
  "platform \<Rightarrow> timestamp \<Rightarrow> worker_request \<Rightarrow> string \<Rightarrow> string \<Rightarrow> string option \<Rightarrow> nat
     \<Rightarrow> database \<Rightarrow> database" where
  "log_request P now request slug method query statusCode db =
     (case validateToken P now db (req_authorization request) slug of
        (db1, Some tokenResult) \<Rightarrow>
          (case (valid tokenResult, tv_kb tokenResult) of
             (True, Some kb) \<Rightarrow>
               db1\<lparr>mcp_requests := mcp_requests db1 @
                     [\<lparr>log_knowledge_base_id = kb_id kb,
                       log_client_id = truthy (tv_clientId tokenResult),
                       log_method = method, log_query = query, log_duration_ms = 0,
                       log_status_code = statusCode\<rparr>]\<rparr>
           | _ \<Rightarrow> db1)
      | (db1, None) \<Rightarrow> db1)"

text \<open>The \<open>try\<close> block of the POST branch: the response, with the \<open>method\<close> and \<open>query\<close> the
  \<open>finally\<close> block logs. \<open>handleMCPRequest\<close> catches what its tools throw, so a parsed
  request is answered with 200.\<close>

definition handle_post ::
  "platform \<Rightarrow> timestamp \<Rightarrow> world \<Rightarrow> worker_request \<Rightarrow> string
     \<Rightarrow> world \<times> worker_response \<times> string \<times> string option" where
  "handle_post P now w request slug =
     (case validateToken P now (store w) (req_authorization request) slug of
        (db1, None) \<Rightarrow>
          (w\<lparr>store := db1\<rparr>,
           \<lparr>w_status = 500, w_message = Some ''Internal server error'', w_rate = None\<rparr>,
           ''unknown'', None)
      | (db1, Some tokenResult) \<Rightarrow>
          if \<not> valid tokenResult then
            (w\<lparr>store := db1\<rparr>,
             \<lparr>w_status = 401,
              w_message = Some (case truthy (tv_error tokenResult) of
                                  None \<Rightarrow> ''Unauthorized'' | Some e \<Rightarrow> e),
              w_rate = None\<rparr>,
             ''unknown'', None)
          else
            (case createAuthContext tokenResult of
               None \<Rightarrow>
                 (w\<lparr>store := db1\<rparr>,
                  \<lparr>w_status = 500, w_message = Some ''Internal error: invalid auth context'',
                   w_rate = None\<rparr>,
                  ''unknown'', None)
             | Some authContext \<Rightarrow>
                 (let (kv1, rateLimitInfo) =
                        checkRateLimit now (kv_reachable w) (rate_limits w)
                          (kb_id (ctx_kb authContext)) (Some (ctx_clientId authContext));
                      w1 = w\<lparr>store := db1, rate_limits := kv1\<rparr>
                  in
                  if \<not> allowed rateLimitInfo then
                    (w1, \<lparr>w_status = 429, w_message = Some ''Rate limit exceeded'',
                          w_rate = Some rateLimitInfo\<rparr>, ''unknown'', None)
                  else if req_body request = JsonInvalid then
                    (w1, \<lparr>w_status = 400, w_message = Some ''Parse error: invalid JSON'',
                          w_rate = None\<rparr>, ''unknown'', None)
                  else
                    (case parseMCPRequest (req_body request) of
                       None \<Rightarrow>
                         (w1, \<lparr>w_status = 400, w_message = Some ''Invalid request'',
                               w_rate = None\<rparr>, ''unknown'', None)
                     | Some mcpRequest \<Rightarrow>
                         (let method = (case env_method mcpRequest of None \<Rightarrow> [] | Some m \<Rightarrow> m);
                              query =
                                (if method = ''tools/call'' \<and> env_tool_name mcpRequest = Some ''search''
                                 then truthy (env_query mcpRequest) else None)
                          in (w1, \<lparr>w_status = 200, w_message = None, w_rate = Some rateLimitInfo\<rparr>,
                              method, query))))))"

definition fetch ::
  "platform \<Rightarrow> timestamp \<Rightarrow> world \<Rightarrow> worker_request \<Rightarrow> world \<times> worker_response" where
  "fetch P now w request =
     (if req_method request = ''OPTIONS'' then
        (w, \<lparr>w_status = 200, w_message = None, w_rate = None\<rparr>)
      else if req_path request = ''/health'' \<and> req_method request = ''GET'' then
        (w, \<lparr>w_status = 200, w_message = Some ''ok'', w_rate = None\<rparr>)
      else
        (case mcp_route (req_path request) of
           None \<Rightarrow> (w, \<lparr>w_status = 404, w_message = Some ''Not found'', w_rate = None\<rparr>)
         | Some slug \<Rightarrow>
             if req_method request = ''GET'' then
               (let accept = (case truthy (req_accept request) of None \<Rightarrow> [] | Some a \<Rightarrow> a) in
                if str_includes accept ''text/event-stream'' then
                  (case validateToken P now (store w) (req_authorization request) slug of
                     (db1, None) \<Rightarrow>
                       (w\<lparr>store := db1\<rparr>, \<lparr>w_status = 500, w_message = None, w_rate = None\<rparr>)
                   | (db1, Some tokenResult) \<Rightarrow>
                       if \<not> valid tokenResult then
                         (w\<lparr>store := db1\<rparr>,
                          \<lparr>w_status = 401,
                           w_message = Some (case truthy (tv_error tokenResult) of
                                               None \<Rightarrow> ''Unauthorized'' | Some e \<Rightarrow> e),
                           w_rate = None\<rparr>)
                       else
                         (w\<lparr>store := db1\<rparr>,
                          \<lparr>w_status = 200, w_message = Some ''event: open'', w_rate = None\<rparr>))
                else (w, \<lparr>w_status = 200, w_message = None, w_rate = None\<rparr>))
             else if req_method request = ''DELETE'' then
               (w, \<lparr>w_status = 204, w_message = None, w_rate = None\<rparr>)
             else if req_method request \<noteq> ''POST'' then
               (w, \<lparr>w_status = 405, w_message = Some ''Method not allowed'', w_rate = None\<rparr>)
             else
               (let (w1, resp, method, query) = handle_post P now w request slug;
                    db2 = log_request P now request slug method query (w_status resp) (store w1)
                in (w1\<lparr>store := db2\<rparr>, resp))))"

section \<open>The web application's MCP route (POST /api/mcp/[slug])\<close>

text \<open>\<open>tool_throws\<close>: a collaborator of \<open>handleCallTool\<close> (search, the store) throws.\<close>

definition POST_mcp :: "database \<Rightarrow> string \<Rightarrow> json_body \<Rightarrow> bool \<Rightarrow> response" where
  "POST_mcp db slug body tool_throws =
     (case single_row (filter (\<lambda>k. kb_slug k = slug \<and> kb_mcp_enabled k) (knowledge_bases db)) of
        None \<Rightarrow> JsonMessage 404 ''Knowledge base not found or MCP not enabled''
      | Some kb \<Rightarrow>
          if kb_visibility kb \<noteq> Public then
            JsonMessage 403 ''This knowledge base is not publicly accessible''
          else
            (case body of
               JsonInvalid \<Rightarrow> JsonMessage 500 ''Internal error''
             | JsonNull \<Rightarrow> JsonMessage 500 ''Internal error''
             | JsonNonObject \<Rightarrow> JsonMessage 400 ''Invalid Request''
             | JsonObject req \<Rightarrow>
                 if env_jsonrpc req \<noteq> Some ''2.0'' \<or> truthy (env_method req) = None
                    \<or> \<not> env_id_defined req then
                   JsonMessage 400 ''Invalid Request''
                 else if env_method req = Some ''initialize'' \<or> env_method req = Some ''tools/list''
                         \<or> env_method req = Some ''ping'' then
                   JsonMessage 200 ''result''
                 else if env_method req = Some ''tools/call'' then
                   (case truthy (env_tool_name req) of
                      None \<Rightarrow> JsonMessage 400 ''Invalid params: tool name required''
                    | Some toolName \<Rightarrow>
                        if toolName \<in> set [''search'', ''list_sources'', ''get_info'']
                           \<and> \<not> tool_throws
                        then JsonMessage 200 ''result''
                        else JsonMessage 500 ''Internal error'')
                 else JsonMessage 400 ''Method not found''))"

section \<open>Lapsed subscriptions\<close>

text \<open>
  The conditions under which the subscription a token is linked to no longer entitles:
  the token has no \<open>subscription_id\<close>, or the row is missing, or its status is neither
  \<open>active\<close> nor \<open>trialing\<close>, or its current period end is in the past.
\<close>

definition subscription_lapsed :: "timestamp \<Rightarrow> database \<Rightarrow> oauth_token \<Rightarrow> bool" where
  "subscription_lapsed now db t =
     (case truthy (subscription_id t) of
        None \<Rightarrow> True
      | Some sid \<Rightarrow>
          (case single_row (filter (\<lambda>s. sub_id s = sid) (kb_subscriptions db)) of
             None \<Rightarrow> True
           | Some sub \<Rightarrow>
               (sub_status sub \<noteq> Active \<and> sub_status sub \<noteq> Trialing) \<or>
               (case current_period_end sub of None \<Rightarrow> False | Some e \<Rightarrow> e < now)))"

section \<open>The token endpoint, statement by statement\<close>

text \<open>
  The handlers of the token endpoint are \<open>async\<close>: between two awaited statements on the
  store, the statements of other requests run. A request in flight is at one of its
  await points (\<open>task\<close>): an exchange has yet to look its code up, or found it expired and
  has yet to mark it used, or verified it and has yet to mark it used, or marked it and
  has yet to insert the tokens; a refresh has yet to look its token up, or found it
  expired and has yet to delete the row, or verified it and has yet to update the row.
  \<open>token_step\<close> runs the next awaited statement of a request, with the checks the handler
  makes on its result before it awaits again; \<open>interleave\<close> runs a schedule, each event
  naming the request that takes a step and the clock reading of that step. A request
  that takes its steps with no other in between is \<open>run_alone\<close>, and is what the functions
  \<open>handleAuthorizationCode\<close> and \<open>handleRefreshToken\<close> above compute
  (\<open>handleAuthorizationCode_steps\<close>, \<open>handleRefreshToken_steps\<close>).
\<close>

datatype task =
    Exchange_Start
  | Exchange_Expired oauth_code
  | Exchange_Verified oauth_code
  | Exchange_Marked oauth_code
  | Refresh_Start
  | Refresh_Expired oauth_token
  | Refresh_Verified oauth_token
  | Finished response

record request_in_flight =
  rq_entropy :: entropy
  rq_body :: form
  rq_task :: task

definition token_step ::
  "platform \<Rightarrow> timestamp \<Rightarrow> database \<Rightarrow> request_in_flight \<Rightarrow> database \<times> task" where
  "token_step P now db rq =
     (let rnd = rq_entropy rq; body = rq_body rq in
      case rq_task rq of
        Exchange_Start \<Rightarrow>
          (case (truthy (body ''code''), truthy (body ''redirect_uri''),
                 truthy (body ''client_id''), truthy (body ''code_verifier'')) of
             (Some code, Some redirect_uri, Some client_id, Some code_verifier) \<Rightarrow>
               (let codeHash = hashToken P code in
                case single_row (filter (\<lambda>r. code_hash r = codeHash \<and> code_used_at r = None)
                                   (oauth_codes db)) of
                  None \<Rightarrow>
                    (db, Finished (oauthError P INVALID_GRANT
                                     ''Invalid or expired authorization code'' None None))
                | Some authCode \<Rightarrow>
                    if code_expires_at authCode < now then (db, Exchange_Expired authCode)
                    else if code_client_id authCode \<noteq> client_id then
                      (db, Finished (oauthError P INVALID_GRANT ''Client ID mismatch'' None None))
                    else if code_redirect_uri authCode \<noteq> redirect_uri then
                      (db, Finished (oauthError P INVALID_GRANT ''Redirect URI mismatch'' None None))
                    else
                      (let challengeMethod =
                             (case truthy (code_challenge_method authCode) of
                                None \<Rightarrow> ''S256'' | Some m \<Rightarrow> m);
                           challenge =
                             (case truthy (code_challenge authCode) of None \<Rightarrow> [] | Some c \<Rightarrow> c)
                       in if \<not> validateCodeChallenge P code_verifier challenge challengeMethod then
                            (db, Finished (oauthError P INVALID_GRANT ''Invalid code verifier''
                                             None None))
                          else (db, Exchange_Verified authCode)))
           | _ \<Rightarrow>
               (db, Finished (oauthError P INVALID_REQUEST
                 ''Missing required parameters: code, redirect_uri, client_id, code_verifier''
                 None None)))
      | Exchange_Expired authCode \<Rightarrow>
          (mark_code_used now (code_id authCode) db,
           Finished (oauthError P INVALID_GRANT ''Authorization code has expired'' None None))
      | Exchange_Verified authCode \<Rightarrow>
          (mark_code_used now (code_id authCode) db, Exchange_Marked authCode)
      | Exchange_Marked authCode \<Rightarrow>
          (let accessToken =
                 generateAccessToken (code_knowledge_base_id authCode) (rand_access rnd);
               refreshToken =
                 generateRefreshToken (code_knowledge_base_id authCode) (rand_refresh rnd);
               accessTokenHash = hashToken P accessToken;
               refreshTokenHash = hashToken P refreshToken;
               accessExpires = now + EXPIRY_ACCESS_TOKEN * 1000;
               refreshExpires = now + EXPIRY_REFRESH_TOKEN * 1000;
               row = \<lparr>tok_id = fresh_id rnd,
                      tok_client_id = code_client_id authCode,
                      tok_knowledge_base_id = code_knowledge_base_id authCode,
                      tok_user_id = code_user_id authCode,
                      access_token_hash = accessTokenHash,
                      refresh_token_hash = Some refreshTokenHash,
                      tok_scopes = code_scopes authCode,
                      tok_expires_at = accessExpires,
                      refresh_expires_at = Some refreshExpires,
                      last_used_at = None,
                      subscription_id = None\<rparr>
           in case insert_token row db of
                None \<Rightarrow>
                  (db, Finished (oauthError P SERVER_ERROR ''Failed to generate tokens'' None None))
              | Some db2 \<Rightarrow>
                  (db2, Finished (TokenJson accessToken ''Bearer'' EXPIRY_ACCESS_TOKEN refreshToken
                                    (join '' '' (code_scopes authCode)))))
      | Refresh_Start \<Rightarrow>
          (case truthy (body ''refresh_token'') of
             None \<Rightarrow> (db, Finished (oauthError P INVALID_REQUEST ''Missing refresh_token'' None None))
           | Some refresh_token \<Rightarrow>
               (let refreshTokenHash = hashToken P refresh_token in
                case single_row (filter (\<lambda>t. refresh_token_hash t = Some refreshTokenHash)
                                   (oauth_tokens db)) of
                  None \<Rightarrow>
                    (db, Finished (oauthError P INVALID_GRANT ''Invalid refresh token'' None None))
                | Some existingToken \<Rightarrow>
                    if (case refresh_expires_at existingToken of
                          None \<Rightarrow> False | Some e \<Rightarrow> e < now) then
                      (db, Refresh_Expired existingToken)
                    else if (case truthy (body ''client_id'') of
                               None \<Rightarrow> False
                             | Some client_id \<Rightarrow> tok_client_id existingToken \<noteq> client_id) then
                      (db, Finished (oauthError P INVALID_GRANT ''Client ID mismatch'' None None))
                    else (db, Refresh_Verified existingToken)))
      | Refresh_Expired existingToken \<Rightarrow>
          (db\<lparr>oauth_tokens :=
                filter (\<lambda>t. tok_id t \<noteq> tok_id existingToken) (oauth_tokens db)\<rparr>,
           Finished (oauthError P INVALID_GRANT ''Refresh token has expired'' None None))
      | Refresh_Verified existingToken \<Rightarrow>
          (let newAccessToken =
                 generateAccessToken (tok_knowledge_base_id existingToken) (rand_access rnd);
               newRefreshToken =
                 generateRefreshToken (tok_knowledge_base_id existingToken) (rand_refresh rnd);
               newAccessTokenHash = hashToken P newAccessToken;
               newRefreshTokenHash = hashToken P newRefreshToken;
               accessExpires = now + EXPIRY_ACCESS_TOKEN * 1000;
               refreshExpires = now + EXPIRY_REFRESH_TOKEN * 1000
           in case update_token_rotation (tok_id existingToken) newAccessTokenHash
                     newRefreshTokenHash accessExpires refreshExpires now db of
                None \<Rightarrow>
                  (db, Finished (oauthError P SERVER_ERROR ''Failed to refresh tokens'' None None))
              | Some db1 \<Rightarrow>
                  (db1, Finished (TokenJson newAccessToken ''Bearer'' EXPIRY_ACCESS_TOKEN
                                    newRefreshToken (join '' '' (tok_scopes existingToken)))))
      | Finished resp \<Rightarrow> (db, Finished resp))"

definition step_request ::
  "platform \<Rightarrow> timestamp \<Rightarrow> database \<Rightarrow> request_in_flight \<Rightarrow> database \<times> request_in_flight" where
  "step_request P now db rq =
     (case token_step P now db rq of (db', t) \<Rightarrow> (db', rq\<lparr>rq_task := t\<rparr>))"

fun interleave ::
  "platform \<Rightarrow> database \<Rightarrow> request_in_flight list \<Rightarrow> (nat \<times> timestamp) list
     \<Rightarrow> database \<times> request_in_flight list" where
  "interleave P db rqs [] = (db, rqs)"
| "interleave P db rqs ((i, now) # schedule) =
     (if i < length rqs then
        (case step_request P now db (rqs ! i) of
           (db', rq') \<Rightarrow> interleave P db' (rqs[i := rq']) schedule)
      else interleave P db rqs schedule)"

text \<open>A request that runs alone, every statement at the same clock reading.\<close>

definition run_alone ::
  "platform \<Rightarrow> timestamp \<Rightarrow> database \<Rightarrow> request_in_flight \<Rightarrow> database \<times> request_in_flight" where
  "run_alone P now db rq =
     (case step_request P now db rq of
        (db1, rq1) \<Rightarrow>
          (case step_request P now db1 rq1 of
             (db2, rq2) \<Rightarrow> step_request P now db2 rq2))"

text \<open>A refresh request that has not been answered 200: it has yet to look its token up,
  or it was answered with another status.\<close>

definition rejected_or_waiting :: "task \<Rightarrow> bool" where
  "rejected_or_waiting t =
     (case t of Refresh_Start \<Rightarrow> True | Finished resp \<Rightarrow> status resp \<noteq> 200 | _ \<Rightarrow> False)"

section \<open>Concrete stores and requests\<close>

text \<open>The closed instances below are evaluated on these values. The digests of
  \<open>test_platform\<close> tag their argument, its URL parser reads the host of an \<open>https\<close> URL.\<close>

definition test_platform :: platform where
  "test_platform =
     \<lparr>sha256_hex = (\<lambda>s. ''h:'' @ s),
      sha256_base64url = (\<lambda>s. ''b:'' @ s),
      url_hostname = (\<lambda>u. if prefix ''https://'' u
                            then Some (takeWhile (\<lambda>c. c \<noteq> CHR ''/'') (drop 8 u)) else None)\<rparr>"

definition test_kb :: knowledge_base where
  "test_kb = \<lparr>kb_id = ''kb1-0000'', kb_user_id = ''alice'', kb_name = ''Docs'', kb_slug = ''docs'',
              kb_visibility = Public, kb_pricing_model = Paid, kb_mcp_enabled = True\<rparr>"

definition test_client :: oauth_client where
  "test_client = \<lparr>oc_client_id = ''mcp_client_A'', oc_knowledge_base_id = ''kb1-0000'',
                  oc_user_id = ''alice'', oc_redirect_uris = Some [''https://x.test/cb''],
                  oc_scopes = Some [''search'', ''get_info''], oc_revoked_at = None\<rparr>"

definition test_db :: database where
  "test_db = \<lparr>knowledge_bases = [test_kb], oauth_clients = [test_client], oauth_codes = [],
              oauth_tokens = [], kb_subscriptions = [], mcp_requests = []\<rparr>"

definition test_rnd :: entropy where
  "test_rnd = \<lparr>rand_access = ''AAAA'', rand_refresh = ''RRRR'', rand_code = ''CCCC'',
               rand_client = ''KKKK'', rand_secret = ''SSSS'', fresh_id = ''row1''\<rparr>"

definition test_token :: oauth_token where
  "test_token = \<lparr>tok_id = ''tok1'', tok_client_id = ''mcp_client_A'',
                 tok_knowledge_base_id = ''kb1-0000'', tok_user_id = ''bob'',
                 access_token_hash = ''h:sha_kb_kb1_AAAA'',
                 refresh_token_hash = Some ''h:shr_kb_kb1_RRRR'',
                 tok_scopes = [''search''], tok_expires_at = 5000000,
                 refresh_expires_at = Some 9000000, last_used_at = None,
                 subscription_id = Some ''sub1''\<rparr>"

definition test_code :: oauth_code where
  "test_code = \<lparr>code_id = ''code1'', code_hash = ''h:shc_CCCC'', code_client_id = ''mcp_client_A'',
                code_knowledge_base_id = ''kb1-0000'', code_user_id = ''alice'',
                code_redirect_uri = ''https://x.test/cb'', code_scopes = [''search'', ''get_info''],
                code_challenge = Some ''b:verifier'', code_challenge_method = Some ''S256'',
                code_expires_at = 601000, code_used_at = None\<rparr>"

definition test_db_code :: database where
  "test_db_code = test_db\<lparr>oauth_codes := [test_code]\<rparr>"

definition test_exchange_body :: form where
  "test_exchange_body =
     [''grant_type'' \<mapsto> ''authorization_code'', ''code'' \<mapsto> ''shc_CCCC'',
      ''redirect_uri'' \<mapsto> ''https://x.test/cb'', ''client_id'' \<mapsto> ''mcp_client_A'',
      ''code_verifier'' \<mapsto> ''verifier'']"

definition test_issued_token :: oauth_token where
  "test_issued_token =
     \<lparr>tok_id = ''row1'', tok_client_id = ''mcp_client_A'', tok_knowledge_base_id = ''kb1-0000'',
      tok_user_id = ''alice'', access_token_hash = ''h:sha_kb_kb1_AAAA'',
      refresh_token_hash = Some ''h:shr_kb_kb1_RRRR'', tok_scopes = [''search'', ''get_info''],
      tok_expires_at = 3602000, refresh_expires_at = Some 2592002000, last_used_at = None,
      subscription_id = None\<rparr>"

definition test_db_exchanged :: database where
  "test_db_exchanged =
     test_db\<lparr>oauth_codes := [test_code\<lparr>code_used_at := Some 2000\<rparr>],
             oauth_tokens := [test_issued_token]\<rparr>"

definition test_rnd2 :: entropy where
  "test_rnd2 = \<lparr>rand_access = ''BBBB'', rand_refresh = ''QQQQ'', rand_code = ''DDDD'',
                rand_client = ''LLLL'', rand_secret = ''TTTT'', fresh_id = ''row2''\<rparr>"

definition test_db_token :: database where
  "test_db_token = test_db\<lparr>oauth_tokens := [test_token]\<rparr>"

definition test_refresh_body :: form where
  "test_refresh_body = [''grant_type'' \<mapsto> ''refresh_token'', ''refresh_token'' \<mapsto> ''shr_kb_kb1_RRRR'']"

definition test_db_rotated :: database where
  "test_db_rotated =
     test_db\<lparr>oauth_tokens :=
       [test_token\<lparr>access_token_hash := ''h:sha_kb_kb1_BBBB'',
                   refresh_token_hash := Some ''h:shr_kb_kb1_QQQQ'',
                   tok_expires_at := 3604000, refresh_expires_at := Some 2592004000,
                   last_used_at := Some 4000\<rparr>]\<rparr>"

definition test_db_revoked :: database where
  "test_db_revoked =
     test_db\<lparr>oauth_clients := [test_client\<lparr>oc_revoked_at := Some 1500\<rparr>],
             oauth_codes := [test_code]\<rparr>"

definition test_db_revoked_exchanged :: database where
  "test_db_revoked_exchanged =
     test_db_revoked\<lparr>oauth_codes := [test_code\<lparr>code_used_at := Some 2000\<rparr>],
                     oauth_tokens := [test_issued_token]\<rparr>"

definition test_sub_pastdue :: kb_subscription where
  "test_sub_pastdue = \<lparr>sub_id = ''sub1'', sub_knowledge_base_id = ''kb1-0000'',
                       subscriber_id = ''bob'', sub_status = PastDue,
                       current_period_end = Some 9000000\<rparr>"

definition test_world :: world where
  "test_world =
     \<lparr>store = test_db\<lparr>oauth_tokens := [test_token], kb_subscriptions := [test_sub_pastdue]\<rparr>,
      rate_limits = Map.empty, kv_reachable = True\<rparr>"

definition test_request :: worker_request where
  "test_request =
     \<lparr>req_method = ''POST'', req_path = ''/mcp/docs'',
      req_authorization = Some ''Bearer sha_kb_kb1_AAAA'', req_accept = None,
      req_body = JsonObject \<lparr>env_jsonrpc = Some ''2.0'', env_id_defined = True,
                             env_method = Some ''ping'', env_tool_name = None, env_query = None\<rparr>\<rparr>"

definition test_request_unknown :: worker_request where
  "test_request_unknown = test_request\<lparr>req_path := ''/mcp/unknown-kb''\<rparr>"

definition test_exchange_A :: request_in_flight where
  "test_exchange_A = \<lparr>rq_entropy = test_rnd, rq_body = test_exchange_body, rq_task = Exchange_Start\<rparr>"

definition test_exchange_B :: request_in_flight where
  "test_exchange_B = \<lparr>rq_entropy = test_rnd2, rq_body = test_exchange_body, rq_task = Exchange_Start\<rparr>"

definition test_refresh_replay :: request_in_flight where
  "test_refresh_replay =
     \<lparr>rq_entropy = test_rnd2, rq_body = test_refresh_body, rq_task = Refresh_Start\<rparr>"





definition test_authorize_query :: form where
  "test_authorize_query =
     [''client_id'' \<mapsto> ''mcp_client_A'', ''redirect_uri'' \<mapsto> ''https://x.test/cb'',
      ''response_type'' \<mapsto> ''code'', ''scope'' \<mapsto> ''admin write'', ''state'' \<mapsto> ''xyz'',
      ''code_challenge'' \<mapsto> ''b:verifier'', ''code_challenge_method'' \<mapsto> ''S256'']"

section \<open>Properties of the token codec\<close>

lemma split_on_nonempty: "split_on c s \<noteq> []"
  by (induction s) (auto split: list.splits)

lemma parseScopes_unrecognized:
  assumes "scope = None \<or>
           (\<exists>s. scope = Some s \<and> (\<forall>e \<in> set (split_on CHR '' '' s). e \<notin> set OAUTH_SCOPES))"
  shows "parseScopes scope = DEFAULT_SCOPES"
  using assms
  by (auto simp: parseScopes_def truthy_def Let_def filter_empty_conv split: option.splits)

text \<open>
  C10. PKCE round trip: a challenge generated from a verifier under a method validates
  against the same verifier under that method, for \<open>S256\<close>, for \<open>plain\<close>, and for whatever
  other string the erased type lets through. Both functions are functions of their
  arguments and of the digest alone.
\<close>

theorem pkce_roundtrip:
  "validateCodeChallenge P verifier (generateCodeChallenge P verifier ''S256'') ''S256'' \<and>
   validateCodeChallenge P verifier (generateCodeChallenge P verifier ''plain'') ''plain'' \<and>
   validateCodeChallenge P verifier (generateCodeChallenge P verifier method) method"
  by (simp add: validateCodeChallenge_def generateCodeChallenge_def)

text \<open>
  C9. A scope parameter that is absent, or none of whose space-separated entries is a
  recognised scope, parses to the full default scope set. An authorization request with
  such a scope that passes the earlier checks (parameters, session, client, owner,
  redirect URI) is therefore not refused with \<open>invalid_scope\<close>: when the defaults meet
  the client's granted scopes and the code can be stored, the endpoint stores a code for
  that intersection and redirects with it.
\<close>

theorem unrecognized_scopes_default:
  assumes unrec: "q ''scope'' = None \<or>
            (\<exists>s. q ''scope'' = Some s \<and>
                 (\<forall>e \<in> set (split_on CHR '' '' s). e \<notin> set OAUTH_SCOPES))"
    and cid: "q ''client_id'' = Some clientId" "clientId \<noteq> []"
    and ru: "q ''redirect_uri'' = Some redirectUri" "redirectUri \<noteq> []"
    and rt: "q ''response_type'' = Some ''code''"
    and cc: "q ''code_challenge'' = Some codeChallenge" "codeChallenge \<noteq> []"
    and ccm: "q ''code_challenge_method'' = Some ''S256''"
    and client: "single_row (filter (\<lambda>c. oc_client_id c = clientId \<and> oc_revoked_at c = None \<and>
                      kb_by_id db (oc_knowledge_base_id c) \<noteq> None) (oauth_clients db)) = Some client"
    and owner: "map_option kb_user_id (kb_by_id db (oc_knowledge_base_id client)) = Some userId"
    and uri: "isValidRedirectUri P redirectUri
                (case oc_redirect_uris client of None \<Rightarrow> [] | Some us \<Rightarrow> us)"
    and granted:
      "granted = filter (\<lambda>s. s \<in> set (case oc_scopes client of None \<Rightarrow> [] | Some ss \<Rightarrow> ss))
                   DEFAULT_SCOPES"
      "granted \<noteq> []"
    and fresh: "\<not> list_ex (\<lambda>r. code_id r = fresh_id rnd \<or>
                     code_hash r = hashToken P (generateAuthCode (rand_code rnd))) (oauth_codes db)"
  shows "parseScopes (q ''scope'') = [''search'', ''list_sources'', ''get_info''] \<and>
         GET_authorize P now rnd (Some userId) db url q =
           (db\<lparr>oauth_codes := oauth_codes db @
                 [\<lparr>code_id = fresh_id rnd,
                   code_hash = hashToken P (generateAuthCode (rand_code rnd)),
                   code_client_id = clientId,
                   code_knowledge_base_id = oc_knowledge_base_id client,
                   code_user_id = userId,
                   code_redirect_uri = redirectUri,
                   code_scopes = granted,
                   code_challenge = Some codeChallenge,
                   code_challenge_method = Some ''S256'',
                   code_expires_at = now + EXPIRY_AUTH_CODE * 1000,
                   code_used_at = None\<rparr>]\<rparr>,
            Redirect redirectUri
              ((''code'', generateAuthCode (rand_code rnd)) #
               (case truthy (q ''state'') of None \<Rightarrow> [] | Some st \<Rightarrow> [(''state'', st)])))"
proof -
  have ps: "parseScopes (q ''scope'') = DEFAULT_SCOPES"
    using unrec by (rule parseScopes_unrecognized)
  have ds: "DEFAULT_SCOPES = [''search'', ''list_sources'', ''get_info'']"
    by (simp add: DEFAULT_SCOPES_def)
  have "GET_authorize P now rnd (Some userId) db url q =
           (db\<lparr>oauth_codes := oauth_codes db @
                 [\<lparr>code_id = fresh_id rnd,
                   code_hash = hashToken P (generateAuthCode (rand_code rnd)),
                   code_client_id = clientId,
                   code_knowledge_base_id = oc_knowledge_base_id client,
                   code_user_id = userId,
                   code_redirect_uri = redirectUri,
                   code_scopes = granted,
                   code_challenge = Some codeChallenge,
                   code_challenge_method = Some ''S256'',
                   code_expires_at = now + EXPIRY_AUTH_CODE * 1000,
                   code_used_at = None\<rparr>]\<rparr>,
            Redirect redirectUri
              ((''code'', generateAuthCode (rand_code rnd)) #
               (case truthy (q ''state'') of None \<Rightarrow> [] | Some st \<Rightarrow> [(''state'', st)])))"
    using cid ru rt cc ccm client owner uri granted fresh
    by (simp add: ps GET_authorize_def truthy_def Let_def insert_code_def)
  then show ?thesis using ps ds by simp
qed

theorem unrecognized_scopes_default_witness:
  "parseScopes (Some ''admin write'') = [''search'', ''list_sources'', ''get_info''] \<and>
   GET_authorize test_platform 1000 test_rnd (Some ''alice'') test_db
       ''https://app.test/api/oauth/authorize'' test_authorize_query =
     (test_db\<lparr>oauth_codes :=
         [\<lparr>code_id = ''row1'', code_hash = ''h:shc_CCCC'', code_client_id = ''mcp_client_A'',
           code_knowledge_base_id = ''kb1-0000'', code_user_id = ''alice'',
           code_redirect_uri = ''https://x.test/cb'', code_scopes = [''search'', ''get_info''],
           code_challenge = Some ''b:verifier'', code_challenge_method = Some ''S256'',
           code_expires_at = 601000, code_used_at = None\<rparr>]\<rparr>,
      Redirect ''https://x.test/cb'' [(''code'', ''shc_CCCC''), (''state'', ''xyz'')])"
proof -
  have h1: "test_authorize_query ''scope'' = None \<or>
            (\<exists>s. test_authorize_query ''scope'' = Some s \<and>
                 (\<forall>e \<in> set (split_on CHR '' '' s). e \<notin> set OAUTH_SCOPES))"
    by (simp add: test_authorize_query_def OAUTH_SCOPES_def)
  have h2: "test_authorize_query ''client_id'' = Some ''mcp_client_A''"
    and h3: "test_authorize_query ''redirect_uri'' = Some ''https://x.test/cb''"
    and h4: "test_authorize_query ''response_type'' = Some ''code''"
    and h5: "test_authorize_query ''code_challenge'' = Some ''b:verifier''"
    and h6: "test_authorize_query ''code_challenge_method'' = Some ''S256''"
    by (simp_all add: test_authorize_query_def)
  have h7: "single_row (filter (\<lambda>c. oc_client_id c = ''mcp_client_A'' \<and> oc_revoked_at c = None \<and>
                      kb_by_id test_db (oc_knowledge_base_id c) \<noteq> None) (oauth_clients test_db))
            = Some test_client"
    by (simp add: test_db_def test_client_def test_kb_def single_row_def kb_by_id_def)
  have h8: "map_option kb_user_id (kb_by_id test_db (oc_knowledge_base_id test_client)) = Some ''alice''"
    by (simp add: test_db_def test_client_def test_kb_def kb_by_id_def)
  have h9: "isValidRedirectUri test_platform ''https://x.test/cb''
                (case oc_redirect_uris test_client of None \<Rightarrow> [] | Some us \<Rightarrow> us)"
    by (simp add: isValidRedirectUri_def test_platform_def test_client_def)
  have h10: "[''search'', ''get_info''] =
       filter (\<lambda>s. s \<in> set (case oc_scopes test_client of None \<Rightarrow> [] | Some ss \<Rightarrow> ss)) DEFAULT_SCOPES"
    by (simp add: test_client_def DEFAULT_SCOPES_def)
  have h11: "\<not> list_ex (\<lambda>r. code_id r = fresh_id test_rnd \<or>
                     code_hash r = hashToken test_platform (generateAuthCode (rand_code test_rnd)))
                (oauth_codes test_db)"
    by (simp add: test_db_def)
  note c = unrecognized_scopes_default [where now = 1000 and url = "''https://app.test/api/oauth/authorize''",
      OF h1 h2 _ h3 _ h4 h5 _ h6 h7 h8 h9 h10 _ h11]
  have s: "test_authorize_query ''scope'' = Some ''admin write''"
       "test_authorize_query ''state'' = Some ''xyz''"
    by (simp_all add: test_authorize_query_def)
  show ?thesis
    using c
    by (simp add: s truthy_def test_rnd_def test_platform_def hashToken_def generateAuthCode_def
        generateToken_def PREFIX_CODE_def EXPIRY_AUTH_CODE_def test_client_def test_db_def)
qed

section \<open>Properties of the revocation endpoint\<close>

text \<open>
  C7. A revocation request in a supported body format that supplies a token is answered
  with the same empty 200 response whatever the store holds: the answer for a store in
  which the token matches a row equals the answer for any other store, in particular for
  the store the first revocation leaves behind.
\<close>

theorem revoke_answer_independent_of_store:
  assumes ct: "str_includes contentType ''application/x-www-form-urlencoded'' \<or>
               str_includes contentType ''application/json''"
    and tok: "body ''token'' = Some token" "token \<noteq> []"
  shows "snd (POST_revoke P db (Some contentType) (Some body)) = EmptyStatus 200 \<and>
         status (snd (POST_revoke P db (Some contentType) (Some body))) = 200 \<and>
         snd (POST_revoke P db' (Some contentType) (Some body)) =
           snd (POST_revoke P db (Some contentType) (Some body)) \<and>
         snd (POST_revoke P (fst (POST_revoke P db (Some contentType) (Some body)))
                (Some contentType) (Some body)) = EmptyStatus 200"
proof -
  have c: "contentType \<noteq> []" using ct by auto
  have r: "snd (POST_revoke P d (Some contentType) (Some body)) = EmptyStatus 200" for d
    using ct tok c by (simp add: POST_revoke_def truthy_def Let_def)
  show ?thesis by (simp add: r)
qed

theorem revoke_answer_independent_of_store_witness:
  "POST_revoke test_platform (test_db\<lparr>oauth_tokens := [test_token]\<rparr>) (Some ''application/json'')
       (Some [''token'' \<mapsto> ''sha_kb_kb1_AAAA'']) = (test_db, EmptyStatus 200) \<and>
   POST_revoke test_platform test_db (Some ''application/json'')
       (Some [''token'' \<mapsto> ''sha_kb_kb1_AAAA'']) = (test_db, EmptyStatus 200)"
  using revoke_answer_independent_of_store [where contentType = "''application/json''"
      and body = "[''token'' \<mapsto> ''sha_kb_kb1_AAAA'']" and token = "''sha_kb_kb1_AAAA''"
      and P = test_platform and db = "test_db\<lparr>oauth_tokens := [test_token]\<rparr>" and db' = test_db]
  by (simp add: POST_revoke_def test_platform_def test_db_def test_token_def truthy_def hashToken_def)

section \<open>Properties of the token endpoint: authorization codes\<close>

lemma single_row_Some: "single_row xs = Some x \<longleftrightarrow> xs = [x]"
  by (auto simp: single_row_def split: list.splits)

lemma single_row_Nil: "single_row [] = None"
  by (simp add: single_row_def)

lemma filter_singleton_unique:
  assumes "filter p xs = [a]"
  shows "\<forall>r \<in> set xs. p r \<longrightarrow> r = a"
proof
  fix r assume "r \<in> set xs"
  show "p r \<longrightarrow> r = a"
  proof
    assume "p r"
    with \<open>r \<in> set xs\<close> have "r \<in> set (filter p xs)" by simp
    with assms show "r = a" by simp
  qed
qed

lemma mark_code_used_consumes:
  assumes "single_row (filter (\<lambda>r. code_hash r = h \<and> code_used_at r = None) (oauth_codes db)) = Some a"
  shows "filter (\<lambda>r. code_hash r = h \<and> code_used_at r = None)
           (oauth_codes (mark_code_used now (code_id a) db)) = []"
proof -
  from assms have "filter (\<lambda>r. code_hash r = h \<and> code_used_at r = None) (oauth_codes db) = [a]"
    by (simp add: single_row_Some)
  then have u: "\<forall>r \<in> set (oauth_codes db). (code_hash r = h \<and> code_used_at r = None) \<longrightarrow> r = a"
    by (rule filter_singleton_unique)
  show ?thesis
    unfolding mark_code_used_def using u
    by (auto simp: filter_empty_conv)
qed

lemma mark_code_used_keeps_consumed:
  assumes "filter (\<lambda>r. code_hash r = h \<and> code_used_at r = None) (oauth_codes db) = []"
  shows "filter (\<lambda>r. code_hash r = h \<and> code_used_at r = None)
           (oauth_codes (mark_code_used now cid db)) = []"
  using assms unfolding mark_code_used_def by (auto simp: filter_empty_conv)

lemma insert_token_codes: "insert_token row db = Some db' \<Longrightarrow> oauth_codes db' = oauth_codes db"
  by (auto simp: insert_token_def split: if_splits)

lemma update_token_rotation_codes:
  "update_token_rotation i a r ae re n db = Some db' \<Longrightarrow> oauth_codes db' = oauth_codes db"
  by (auto simp: update_token_rotation_def split: if_splits)

lemma oauthError_json: "oauthError P e d None None = OAuthErrorJson e d"
  by (simp add: oauthError_def truthy_def)

lemma handleAuthorizationCode_success:
  assumes "handleAuthorizationCode P now rnd db body = (db', resp)" and "status resp = 200"
    and "body ''code'' = Some code"
  shows "code \<noteq> [] \<and> (\<exists>authCode.
           single_row (filter (\<lambda>r. code_hash r = hashToken P code \<and> code_used_at r = None)
                         (oauth_codes db)) = Some authCode \<and>
           oauth_codes db' = oauth_codes (mark_code_used now (code_id authCode) db))"
  using assms
  by (auto simp: handleAuthorizationCode_def Let_def oauthError_json truthy_def
        dest!: insert_token_codes
        split: option.splits if_splits prod.splits)

lemma insert_code_Some:
  "insert_code row db = Some db' \<Longrightarrow>
     oauth_codes db' = oauth_codes db @ [row] \<and>
     (\<forall>r \<in> set (oauth_codes db). code_hash r \<noteq> code_hash row)"
  by (auto simp: insert_code_def list_ex_iff split: if_splits)

lemma oauthError_not_code_redirect:
  "oauthError P e d ru st \<noteq> Redirect uri ps"
  by (auto simp: oauthError_def split: option.splits)

lemma GET_authorize_issues:
  assumes "GET_authorize P t0 rnd user db url q = (db1, Redirect uri ((''code'', c) # ps))"
  shows "\<exists>row. insert_code row db = Some db1 \<and>
               code_hash row = hashToken P c \<and> code_used_at row = None \<and>
               code_expires_at row = t0 + EXPIRY_AUTH_CODE * 1000"
  using assms
  by (auto simp: GET_authorize_def Let_def oauthError_not_code_redirect
        split: option.splits if_splits)

lemma exchange_of_consumed_code:
  assumes "filter (\<lambda>r. code_hash r = hashToken P code \<and> code_used_at r = None) (oauth_codes db) = []"
    and "body ''code'' = Some code" "code \<noteq> []"
    and "body ''redirect_uri'' = Some ru" "ru \<noteq> []"
    and "body ''client_id'' = Some cid" "cid \<noteq> []"
    and "body ''code_verifier'' = Some cv" "cv \<noteq> []"
  shows "handleAuthorizationCode P now rnd db body =
           (db, OAuthErrorJson INVALID_GRANT ''Invalid or expired authorization code'')"
  using assms
  by (simp add: handleAuthorizationCode_def oauthError_json truthy_def single_row_Nil)

lemma exchange_of_expired_code:
  assumes "single_row (filter (\<lambda>r. code_hash r = hashToken P code \<and> code_used_at r = None)
                         (oauth_codes db)) = Some authCode"
    and "code_expires_at authCode < now"
    and "body ''code'' = Some code" "code \<noteq> []"
    and "body ''redirect_uri'' = Some ru" "ru \<noteq> []"
    and "body ''client_id'' = Some cid" "cid \<noteq> []"
    and "body ''code_verifier'' = Some cv" "cv \<noteq> []"
  shows "handleAuthorizationCode P now rnd db body =
           (mark_code_used now (code_id authCode) db,
            OAuthErrorJson INVALID_GRANT ''Authorization code has expired'')"
  using assms
  by (simp add: handleAuthorizationCode_def oauthError_json truthy_def)

lemma issued_code_is_found:
  assumes "insert_code row db = Some db1" and "code_used_at row = None"
  shows "single_row (filter (\<lambda>r. code_hash r = code_hash row \<and> code_used_at r = None)
                       (oauth_codes db1)) = Some row"
proof -
  from insert_code_Some [OF assms(1)] have
    c: "oauth_codes db1 = oauth_codes db @ [row]"
    and u: "\<forall>r \<in> set (oauth_codes db). code_hash r \<noteq> code_hash row" by auto
  from u have "filter (\<lambda>r. code_hash r = code_hash row \<and> code_used_at r = None) (oauth_codes db) = []"
    by (auto simp: filter_empty_conv)
  with c assms(2) show ?thesis by (simp add: single_row_def)
qed

lemma consumed_iff:
  "(filter (\<lambda>r. code_hash r = h \<and> code_used_at r = None) xs = []) \<longleftrightarrow>
   (\<forall>r \<in> set xs. code_hash r = h \<longrightarrow> code_used_at r \<noteq> None)"
  by (auto simp: filter_empty_conv)

lemma test_exchange:
  "POST_token test_platform 2000 test_rnd test_db_code (Some ''application/json'')
     (Some test_exchange_body) =
   (test_db_exchanged,
    TokenJson ''sha_kb_kb1_AAAA'' ''Bearer'' 3600 ''shr_kb_kb1_RRRR'' ''search get_info'')"
  by (simp add: POST_token_def handleAuthorizationCode_def test_exchange_body_def test_db_code_def
      test_db_exchanged_def test_issued_token_def test_db_def test_code_def test_platform_def
      test_rnd_def truthy_def hashToken_def single_row_def validateCodeChallenge_def
      mark_code_used_def generateAccessToken_def generateRefreshToken_def generateToken_def
      PREFIX_ACCESS_def PREFIX_REFRESH_def EXPIRY_ACCESS_TOKEN_def EXPIRY_REFRESH_TOKEN_def
      insert_token_def token_conflict_def Let_def)

lemma handleAuthorizationCode_steps:
  "run_alone P now db \<lparr>rq_entropy = rnd, rq_body = body, rq_task = Exchange_Start\<rparr> =
     (case handleAuthorizationCode P now rnd db body of
        (db', resp) \<Rightarrow> (db', \<lparr>rq_entropy = rnd, rq_body = body, rq_task = Finished resp\<rparr>))"
  by (simp add: run_alone_def step_request_def token_step_def handleAuthorizationCode_def Let_def
        split: option.splits prod.splits)

lemma handleRefreshToken_steps:
  "run_alone P now db \<lparr>rq_entropy = rnd, rq_body = body, rq_task = Refresh_Start\<rparr> =
     (case handleRefreshToken P now rnd db body of
        (db', resp) \<Rightarrow> (db', \<lparr>rq_entropy = rnd, rq_body = body, rq_task = Finished resp\<rparr>))"
  by (simp add: run_alone_def step_request_def token_step_def handleRefreshToken_def Let_def
        split: option.splits prod.splits)

lemma exchange_alone_then_replay:
  assumes h: "handleAuthorizationCode P now rnd db body = (db', resp)" and s: "status resp = 200"
    and b: "body ''code'' = Some code"
  shows "(\<forall>r \<in> set (oauth_codes db'). code_hash r = hashToken P code \<longrightarrow> code_used_at r \<noteq> None) \<and>
         (\<forall>now2 rnd2 body2 ru cid cv.
            body2 ''code'' = Some code \<and>
            body2 ''redirect_uri'' = Some ru \<and> ru \<noteq> [] \<and>
            body2 ''client_id'' = Some cid \<and> cid \<noteq> [] \<and>
            body2 ''code_verifier'' = Some cv \<and> cv \<noteq> [] \<longrightarrow>
            handleAuthorizationCode P now2 rnd2 db' body2 =
              (db', OAuthErrorJson INVALID_GRANT ''Invalid or expired authorization code''))"
proof -
  from handleAuthorizationCode_success [OF h s b] obtain authCode where
    ne: "code \<noteq> []"
    and a: "single_row (filter (\<lambda>r. code_hash r = hashToken P code \<and> code_used_at r = None)
                         (oauth_codes db)) = Some authCode"
    and d: "oauth_codes db' = oauth_codes (mark_code_used now (code_id authCode) db)"
    by blast
  have c: "filter (\<lambda>r. code_hash r = hashToken P code \<and> code_used_at r = None) (oauth_codes db') = []"
    unfolding d by (rule mark_code_used_consumes [OF a])
  then have "\<forall>r \<in> set (oauth_codes db'). code_hash r = hashToken P code \<longrightarrow> code_used_at r \<noteq> None"
    by (simp add: consumed_iff)
  moreover have "\<forall>now2 rnd2 body2 ru cid cv.
            body2 ''code'' = Some code \<and>
            body2 ''redirect_uri'' = Some ru \<and> ru \<noteq> [] \<and>
            body2 ''client_id'' = Some cid \<and> cid \<noteq> [] \<and>
            body2 ''code_verifier'' = Some cv \<and> cv \<noteq> [] \<longrightarrow>
            handleAuthorizationCode P now2 rnd2 db' body2 =
              (db', OAuthErrorJson INVALID_GRANT ''Invalid or expired authorization code'')"
    using exchange_of_consumed_code [OF c _ ne] by blast
  ultimately show ?thesis by blast
qed

lemmas test_eval_defs =
  step_request_def token_step_def test_exchange_A_def test_exchange_B_def
  test_exchange_body_def test_db_code_def test_db_def test_code_def test_platform_def
  test_rnd_def test_rnd2_def truthy_def hashToken_def single_row_def validateCodeChallenge_def
  mark_code_used_def generateAccessToken_def generateRefreshToken_def generateToken_def
  PREFIX_ACCESS_def PREFIX_REFRESH_def EXPIRY_ACCESS_TOKEN_def EXPIRY_REFRESH_TOKEN_def
  insert_token_def token_conflict_def Let_def oauthError_def INVALID_GRANT_def

text \<open>
  C2. At most one successful exchange of an authorization code. A request that runs alone
  marks the code used before it stores the tokens, and a later exchange of the code is
  answered \<open>invalid_grant\<close> (\<open>exchange_alone_then_replay\<close>); a code that is found after its
  expiry, ten minutes after its issue, is marked used and answered \<open>invalid_grant\<close>
  (\<open>exchange_of_expired_code\<close>, \<open>GET_authorize_issues\<close>). But the select of the unused code,
  the update that marks it used and the insert of the tokens are three awaited statements,
  and the update neither tests \<open>used_at\<close> nor is its result read. In the first schedule
  below two requests present the same code and verifier and both select the code before
  either marks it: both are answered a token pair and both pairs are stored. In the
  second schedule the same two requests run one after the other, and the second is
  answered \<open>invalid_grant\<close>.
\<close>

theorem overlapping_exchanges_both_succeed:
  "map rq_task (snd (interleave test_platform test_db_code [test_exchange_A, test_exchange_B]
                       [(0, 2000), (1, 2001), (0, 2002), (1, 2003), (0, 2004), (1, 2005)])) =
     [Finished (TokenJson ''sha_kb_kb1_AAAA'' ''Bearer'' 3600 ''shr_kb_kb1_RRRR'' ''search get_info''),
      Finished (TokenJson ''sha_kb_kb1_BBBB'' ''Bearer'' 3600 ''shr_kb_kb1_QQQQ'' ''search get_info'')] \<and>
   map access_token_hash
     (oauth_tokens (fst (interleave test_platform test_db_code [test_exchange_A, test_exchange_B]
                       [(0, 2000), (1, 2001), (0, 2002), (1, 2003), (0, 2004), (1, 2005)]))) =
     [''h:sha_kb_kb1_AAAA'', ''h:sha_kb_kb1_BBBB''] \<and>
   map rq_task (snd (interleave test_platform test_db_code [test_exchange_A, test_exchange_B]
                       [(0, 2000), (0, 2001), (0, 2002), (1, 2003), (1, 2004), (1, 2005)])) =
     [Finished (TokenJson ''sha_kb_kb1_AAAA'' ''Bearer'' 3600 ''shr_kb_kb1_RRRR'' ''search get_info''),
      Finished (OAuthErrorJson ''invalid_grant'' ''Invalid or expired authorization code'')]"
  by (simp add: test_eval_defs)

section \<open>Properties of the token endpoint: refresh tokens\<close>

lemma handleRefreshToken_success:
  assumes "handleRefreshToken P now rnd db body = (db', resp)" and "status resp = 200"
    and "body ''refresh_token'' = Some old"
  shows "old \<noteq> [] \<and> (\<exists>existingToken.
           single_row (filter (\<lambda>t. refresh_token_hash t = Some (hashToken P old)) (oauth_tokens db))
             = Some existingToken \<and>
           resp = TokenJson
                    (generateAccessToken (tok_knowledge_base_id existingToken) (rand_access rnd))
                    ''Bearer'' EXPIRY_ACCESS_TOKEN
                    (generateRefreshToken (tok_knowledge_base_id existingToken) (rand_refresh rnd))
                    (join '' '' (tok_scopes existingToken)) \<and>
           db' = db\<lparr>oauth_tokens :=
                    map (rotate_token (tok_id existingToken)
                           (hashToken P (generateAccessToken (tok_knowledge_base_id existingToken)
                                           (rand_access rnd)))
                           (hashToken P (generateRefreshToken (tok_knowledge_base_id existingToken)
                                           (rand_refresh rnd)))
                           (now + EXPIRY_ACCESS_TOKEN * 1000) (now + EXPIRY_REFRESH_TOKEN * 1000) now)
                      (oauth_tokens db)\<rparr>)"
  using assms
  by (auto simp: handleRefreshToken_def Let_def oauthError_json truthy_def
        update_token_rotation_def
        split: option.splits if_splits)

lemma rotation_removes_old_hash:
  assumes s: "single_row (filter (\<lambda>t. refresh_token_hash t = Some h) ts) = Some e"
    and n: "nr \<noteq> h"
  shows "filter (\<lambda>t. refresh_token_hash t = Some h)
           (map (rotate_token (tok_id e) na nr ae re now) ts) = []"
proof -
  from s have "filter (\<lambda>t. refresh_token_hash t = Some h) ts = [e]"
    by (simp add: single_row_Some)
  then have u: "\<forall>t \<in> set ts. refresh_token_hash t = Some h \<longrightarrow> t = e"
    by (rule filter_singleton_unique)
  show ?thesis using u n
    by (auto simp: filter_empty_conv rotate_token_def)
qed

lemma rotation_keeps_absent:
  assumes "filter (\<lambda>t. refresh_token_hash t = Some h) ts = []" and "nr \<noteq> h"
  shows "filter (\<lambda>t. refresh_token_hash t = Some h)
           (map (rotate_token i na nr ae re now) ts) = []"
  using assms by (auto simp: filter_empty_conv rotate_token_def)

lemma refresh_of_absent_token:
  assumes "filter (\<lambda>t. refresh_token_hash t = Some (hashToken P old)) (oauth_tokens db) = []"
    and "body ''refresh_token'' = Some old" and "old \<noteq> []"
  shows "handleRefreshToken P now rnd db body =
           (db, OAuthErrorJson INVALID_GRANT ''Invalid refresh token'')"
  using assms
  by (simp add: handleRefreshToken_def oauthError_json truthy_def single_row_Nil)

lemma refresh_of_absent_token_status:
  assumes "filter (\<lambda>t. refresh_token_hash t = Some (hashToken P old)) (oauth_tokens db) = []"
    and "body ''refresh_token'' = Some old"
  shows "status (snd (handleRefreshToken P now rnd db body)) \<noteq> 200"
  using assms
  by (cases "old = []")
     (simp_all add: handleRefreshToken_def oauthError_json truthy_def single_row_Nil)

lemma test_refresh:
  "handleRefreshToken test_platform 4000 test_rnd2 test_db_token test_refresh_body =
     (test_db_rotated, TokenJson ''sha_kb_kb1_BBBB'' ''Bearer'' 3600 ''shr_kb_kb1_QQQQ'' ''search'')"
  by (simp add: handleRefreshToken_def test_refresh_body_def test_db_token_def test_db_rotated_def
      test_db_def test_token_def test_platform_def test_rnd2_def truthy_def hashToken_def
      single_row_def generateAccessToken_def generateRefreshToken_def generateToken_def
      PREFIX_ACCESS_def PREFIX_REFRESH_def EXPIRY_ACCESS_TOKEN_def EXPIRY_REFRESH_TOKEN_def
      update_token_rotation_def rotate_token_def Let_def)

lemma token_step_keeps_absent:
  assumes "filter (\<lambda>t. refresh_token_hash t = Some h) (oauth_tokens db) = []"
    and "\<forall>kid. hashToken P (generateRefreshToken kid (rand_refresh (rq_entropy rq))) \<noteq> h"
  shows "filter (\<lambda>t. refresh_token_hash t = Some h) (oauth_tokens (fst (token_step P now db rq))) = []"
  using assms
  by (cases "rq_task rq")
     (auto simp: token_step_def Let_def mark_code_used_def insert_token_def
        update_token_rotation_def rotate_token_def filter_empty_conv
        split: option.splits if_splits)

lemma token_step_refresh_absent:
  assumes "filter (\<lambda>t. refresh_token_hash t = Some (hashToken P old)) (oauth_tokens db) = []"
    and "rq_task rq = Refresh_Start" and "rq_body rq ''refresh_token'' = Some old"
  shows "\<exists>resp. token_step P now db rq = (db, Finished resp) \<and> status resp \<noteq> 200"
  using assms
  by (cases "old = []")
     (simp_all add: token_step_def oauthError_json truthy_def single_row_Nil)

lemma token_step_Finished:
  "rq_task rq = Finished resp \<Longrightarrow> token_step P now db rq = (db, Finished resp)"
  by (simp add: token_step_def)

lemma step_request_fields:
  "step_request P now db rq = (db', rq') \<Longrightarrow>
     rq_entropy rq' = rq_entropy rq \<and> rq_body rq' = rq_body rq \<and>
     db' = fst (token_step P now db rq) \<and> rq_task rq' = snd (token_step P now db rq)"
  by (auto simp: step_request_def split: prod.splits)

lemma step_keeps_rejected_or_waiting:
  assumes a: "filter (\<lambda>t. refresh_token_hash t = Some (hashToken P old)) (oauth_tokens db) = []"
    and b: "rq_body rq ''refresh_token'' = Some old"
    and g: "rejected_or_waiting (rq_task rq)"
  shows "rejected_or_waiting (snd (token_step P now db rq))"
proof (cases "rq_task rq")
  case Refresh_Start
  from token_step_refresh_absent [OF a Refresh_Start b, of now] show ?thesis
    by (auto simp: rejected_or_waiting_def)
next
  case (Finished resp)
  with g show ?thesis by (simp add: token_step_Finished rejected_or_waiting_def)
qed (use g in \<open>simp_all add: rejected_or_waiting_def\<close>)

lemma interleave_keeps_old_token_out:
  assumes "filter (\<lambda>t. refresh_token_hash t = Some (hashToken P old)) (oauth_tokens db) = []"
    and "\<forall>rq \<in> set rqs. \<forall>kid.
           hashToken P (generateRefreshToken kid (rand_refresh (rq_entropy rq))) \<noteq> hashToken P old"
    and "\<forall>i \<in> S. i < length rqs \<and> rq_body (rqs ! i) ''refresh_token'' = Some old \<and>
                  rejected_or_waiting (rq_task (rqs ! i))"
  shows "filter (\<lambda>t. refresh_token_hash t = Some (hashToken P old))
           (oauth_tokens (fst (interleave P db rqs schedule))) = [] \<and>
         (\<forall>i \<in> S. rejected_or_waiting (rq_task (snd (interleave P db rqs schedule) ! i)))"
  using assms
proof (induction schedule arbitrary: db rqs)
  case Nil
  then show ?case by simp
next
  case (Cons ev schedule)
  obtain j now where ev: "ev = (j, now)" by (cases ev)
  show ?case
  proof (cases "j < length rqs")
    case False
    with Cons.IH [OF Cons.prems] ev show ?thesis by simp
  next
    case True
    obtain db' rq' where st: "step_request P now db (rqs ! j) = (db', rq')"
      by (cases "step_request P now db (rqs ! j)")
    note f = step_request_fields [OF st]
    from True have mem: "rqs ! j \<in> set rqs" by simp
    with Cons.prems(2) have fr: "\<forall>kid.
        hashToken P (generateRefreshToken kid (rand_refresh (rq_entropy (rqs ! j)))) \<noteq> hashToken P old"
      by blast
    have a': "filter (\<lambda>t. refresh_token_hash t = Some (hashToken P old)) (oauth_tokens db') = []"
      using token_step_keeps_absent [OF Cons.prems(1) fr, of now] f by simp
    have fr': "\<forall>rq \<in> set (rqs[j := rq']). \<forall>kid.
           hashToken P (generateRefreshToken kid (rand_refresh (rq_entropy rq))) \<noteq> hashToken P old"
    proof
      fix rq assume "rq \<in> set (rqs[j := rq'])"
      then have "rq = rq' \<or> rq \<in> set rqs"
        using set_update_subset_insert [of rqs j rq'] by auto
      with Cons.prems(2) fr f show "\<forall>kid.
           hashToken P (generateRefreshToken kid (rand_refresh (rq_entropy rq))) \<noteq> hashToken P old"
        by auto
    qed
    have s': "\<forall>i \<in> S. i < length (rqs[j := rq']) \<and>
                  rq_body ((rqs[j := rq']) ! i) ''refresh_token'' = Some old \<and>
                  rejected_or_waiting (rq_task ((rqs[j := rq']) ! i))"
    proof
      fix i assume i: "i \<in> S"
      with Cons.prems(3) have p: "i < length rqs" "rq_body (rqs ! i) ''refresh_token'' = Some old"
        "rejected_or_waiting (rq_task (rqs ! i))" by auto
      show "i < length (rqs[j := rq']) \<and>
                  rq_body ((rqs[j := rq']) ! i) ''refresh_token'' = Some old \<and>
                  rejected_or_waiting (rq_task ((rqs[j := rq']) ! i))"
      proof (cases "i = j")
        case True
        with p f step_keeps_rejected_or_waiting [OF Cons.prems(1), of "rqs ! j" now]
        show ?thesis by simp
      next
        case False
        with p show ?thesis by simp
      qed
    qed
    from Cons.IH [OF a' fr' s'] True st ev show ?thesis by simp
  qed
qed

text \<open>
  C3. Refresh-token rotation. Let a \<open>refresh_token\<close> grant that presents \<open>old\<close> be answered
  200, and let the refresh token drawn for it (from 32 random bytes) not hash to the hash
  of \<open>old\<close>. Then the grant found exactly one row by that hash, answered the access and
  refresh token it generated from its random draws, and overwrote in that row both
  hashes, both expiries (one hour, thirty days) and the last-used time; the refresh token
  it answered does not hash to the old hash, and no row matches \<open>old\<close> any more. A request
  that presents \<open>old\<close> afterwards is answered \<open>invalid_grant\<close> and changes nothing. This
  lasts whether or not the new pair is used: in every schedule of requests to the token
  endpoint, in whatever states and however interleaved, whose draws do not hash to the
  old hash either, a refresh request that starts after the rotation and presents \<open>old\<close>
  is never answered 200.
\<close>

theorem refresh_rotation_invalidates_old_token:
  assumes r: "handleRefreshToken P now rnd db body = (db', resp)" and s: "status resp = 200"
    and b: "body ''refresh_token'' = Some old"
    and draw: "\<forall>e \<in> set (oauth_tokens db).
                 refresh_token_hash e = Some (hashToken P old) \<longrightarrow>
                 hashToken P (generateRefreshToken (tok_knowledge_base_id e) (rand_refresh rnd))
                   \<noteq> hashToken P old"
  shows "(\<exists>existingToken access refresh.
            single_row (filter (\<lambda>t. refresh_token_hash t = Some (hashToken P old)) (oauth_tokens db))
              = Some existingToken \<and>
            access = generateAccessToken (tok_knowledge_base_id existingToken) (rand_access rnd) \<and>
            refresh = generateRefreshToken (tok_knowledge_base_id existingToken) (rand_refresh rnd) \<and>
            resp = TokenJson access ''Bearer'' (60 * 60) refresh
                     (join '' '' (tok_scopes existingToken)) \<and>
            hashToken P refresh \<noteq> hashToken P old \<and>
            oauth_tokens db' =
              map (rotate_token (tok_id existingToken) (hashToken P access) (hashToken P refresh)
                     (now + 60 * 60 * 1000) (now + 60 * 60 * 24 * 30 * 1000) now)
                (oauth_tokens db)) \<and>
         filter (\<lambda>t. refresh_token_hash t = Some (hashToken P old)) (oauth_tokens db') = [] \<and>
         (\<forall>now2 rnd2 body2.
            body2 ''refresh_token'' = Some old \<longrightarrow>
            handleRefreshToken P now2 rnd2 db' body2 =
              (db', OAuthErrorJson INVALID_GRANT ''Invalid refresh token'')) \<and>
         (\<forall>rqs schedule.
            (\<forall>rq \<in> set rqs. \<forall>kid.
                hashToken P (generateRefreshToken kid (rand_refresh (rq_entropy rq)))
                  \<noteq> hashToken P old) \<longrightarrow>
            (\<forall>i < length rqs.
                rq_task (rqs ! i) = Refresh_Start \<and> rq_body (rqs ! i) ''refresh_token'' = Some old \<longrightarrow>
                rejected_or_waiting (rq_task (snd (interleave P db' rqs schedule) ! i))))"
proof -
  from handleRefreshToken_success [OF r s b] obtain e where
    ne: "old \<noteq> []"
    and e: "single_row (filter (\<lambda>t. refresh_token_hash t = Some (hashToken P old)) (oauth_tokens db))
              = Some e"
    and resp: "resp = TokenJson (generateAccessToken (tok_knowledge_base_id e) (rand_access rnd))
                        ''Bearer'' EXPIRY_ACCESS_TOKEN
                        (generateRefreshToken (tok_knowledge_base_id e) (rand_refresh rnd))
                        (join '' '' (tok_scopes e))"
    and d: "db' = db\<lparr>oauth_tokens :=
                    map (rotate_token (tok_id e)
                           (hashToken P (generateAccessToken (tok_knowledge_base_id e) (rand_access rnd)))
                           (hashToken P (generateRefreshToken (tok_knowledge_base_id e) (rand_refresh rnd)))
                           (now + EXPIRY_ACCESS_TOKEN * 1000) (now + EXPIRY_REFRESH_TOKEN * 1000) now)
                      (oauth_tokens db)\<rparr>"
    by auto
  define access where "access = generateAccessToken (tok_knowledge_base_id e) (rand_access rnd)"
  define refresh where "refresh = generateRefreshToken (tok_knowledge_base_id e) (rand_refresh rnd)"
  from e have "e \<in> set (filter (\<lambda>t. refresh_token_hash t = Some (hashToken P old)) (oauth_tokens db))"
    by (simp add: single_row_Some)
  then have em: "e \<in> set (oauth_tokens db)" "refresh_token_hash e = Some (hashToken P old)"
    by auto
  with draw have new: "hashToken P refresh \<noteq> hashToken P old"
    unfolding refresh_def by blast
  from resp have resp': "resp = TokenJson access ''Bearer'' (60 * 60) refresh (join '' '' (tok_scopes e))"
    by (simp add: access_def refresh_def EXPIRY_ACCESS_TOKEN_def)
  from d have t: "oauth_tokens db' =
              map (rotate_token (tok_id e) (hashToken P access) (hashToken P refresh)
                     (now + 60 * 60 * 1000) (now + 60 * 60 * 24 * 30 * 1000) now)
                (oauth_tokens db)"
    by (simp add: access_def refresh_def EXPIRY_ACCESS_TOKEN_def EXPIRY_REFRESH_TOKEN_def)
  have c: "filter (\<lambda>t. refresh_token_hash t = Some (hashToken P old)) (oauth_tokens db') = []"
    unfolding t by (rule rotation_removes_old_hash [OF e new])
  have replay: "\<forall>now2 rnd2 body2.
            body2 ''refresh_token'' = Some old \<longrightarrow>
            handleRefreshToken P now2 rnd2 db' body2 =
              (db', OAuthErrorJson INVALID_GRANT ''Invalid refresh token'')"
    using refresh_of_absent_token [OF c _ ne] by blast
  have perm: "\<forall>rqs schedule.
            (\<forall>rq \<in> set rqs. \<forall>kid.
                hashToken P (generateRefreshToken kid (rand_refresh (rq_entropy rq)))
                  \<noteq> hashToken P old) \<longrightarrow>
            (\<forall>i < length rqs.
                rq_task (rqs ! i) = Refresh_Start \<and> rq_body (rqs ! i) ''refresh_token'' = Some old \<longrightarrow>
                rejected_or_waiting (rq_task (snd (interleave P db' rqs schedule) ! i)))"
  proof (intro allI impI)
    fix rqs :: "request_in_flight list" and schedule :: "(nat \<times> timestamp) list" and i :: nat
    assume f: "\<forall>rq \<in> set rqs. \<forall>kid.
                hashToken P (generateRefreshToken kid (rand_refresh (rq_entropy rq)))
                  \<noteq> hashToken P old"
      and i: "i < length rqs"
      and p: "rq_task (rqs ! i) = Refresh_Start \<and> rq_body (rqs ! i) ''refresh_token'' = Some old"
    have "filter (\<lambda>t. refresh_token_hash t = Some (hashToken P old))
            (oauth_tokens (fst (interleave P db' rqs schedule))) = [] \<and>
          (\<forall>k \<in> {i}. rejected_or_waiting (rq_task (snd (interleave P db' rqs schedule) ! k)))"
      by (rule interleave_keeps_old_token_out [OF c f])
         (use i p in \<open>simp add: rejected_or_waiting_def\<close>)
    then show "rejected_or_waiting (rq_task (snd (interleave P db' rqs schedule) ! i))" by simp
  qed
  from e access_def refresh_def resp' new t have first: "\<exists>existingToken access refresh.
            single_row (filter (\<lambda>t. refresh_token_hash t = Some (hashToken P old)) (oauth_tokens db))
              = Some existingToken \<and>
            access = generateAccessToken (tok_knowledge_base_id existingToken) (rand_access rnd) \<and>
            refresh = generateRefreshToken (tok_knowledge_base_id existingToken) (rand_refresh rnd) \<and>
            resp = TokenJson access ''Bearer'' (60 * 60) refresh
                     (join '' '' (tok_scopes existingToken)) \<and>
            hashToken P refresh \<noteq> hashToken P old \<and>
            oauth_tokens db' =
              map (rotate_token (tok_id existingToken) (hashToken P access) (hashToken P refresh)
                     (now + 60 * 60 * 1000) (now + 60 * 60 * 24 * 30 * 1000) now)
                (oauth_tokens db)"
    by blast
  from first c replay perm show ?thesis by blast
qed

theorem refresh_rotation_invalidates_old_token_witness:
  "handleRefreshToken test_platform 4000 test_rnd2 test_db_token test_refresh_body =
     (test_db_rotated, TokenJson ''sha_kb_kb1_BBBB'' ''Bearer'' 3600 ''shr_kb_kb1_QQQQ'' ''search'') \<and>
   handleRefreshToken test_platform 5000 test_rnd2 test_db_rotated test_refresh_body =
     (test_db_rotated, OAuthErrorJson ''invalid_grant'' ''Invalid refresh token'') \<and>
   rejected_or_waiting
     (rq_task (snd (interleave test_platform test_db_rotated [test_refresh_replay] [(0, 6000)]) ! 0))"
proof -
  have s: "status (TokenJson ''sha_kb_kb1_BBBB'' ''Bearer'' 3600 ''shr_kb_kb1_QQQQ'' ''search'') = 200"
    by simp
  have b: "test_refresh_body ''refresh_token'' = Some ''shr_kb_kb1_RRRR''"
    by (simp add: test_refresh_body_def)
  have f: "\<forall>e \<in> set (oauth_tokens test_db_token).
             refresh_token_hash e = Some (hashToken test_platform ''shr_kb_kb1_RRRR'') \<longrightarrow>
             hashToken test_platform
               (generateRefreshToken (tok_knowledge_base_id e) (rand_refresh test_rnd2))
               \<noteq> hashToken test_platform ''shr_kb_kb1_RRRR''"
    by (simp add: test_db_token_def test_token_def test_rnd2_def hashToken_def test_platform_def
        generateRefreshToken_def generateToken_def PREFIX_REFRESH_def)
  note t = refresh_rotation_invalidates_old_token [OF test_refresh s b f]
  from t [THEN conjunct2, THEN conjunct2, THEN conjunct1] b
  have replay: "handleRefreshToken test_platform 5000 test_rnd2 test_db_rotated test_refresh_body =
     (test_db_rotated, OAuthErrorJson INVALID_GRANT ''Invalid refresh token'')"
    by blast
  have later: "\<forall>rq \<in> set [test_refresh_replay]. \<forall>kid.
                hashToken test_platform (generateRefreshToken kid (rand_refresh (rq_entropy rq)))
                  \<noteq> hashToken test_platform ''shr_kb_kb1_RRRR''"
  proof (intro ballI allI notI)
    fix rq kid
    assume "rq \<in> set [test_refresh_replay]"
      and "hashToken test_platform (generateRefreshToken kid (rand_refresh (rq_entropy rq))) =
           hashToken test_platform ''shr_kb_kb1_RRRR''"
    then have "last (hashToken test_platform (generateRefreshToken kid ''QQQQ'')) =
               last (hashToken test_platform ''shr_kb_kb1_RRRR'')"
      by (simp add: test_refresh_replay_def test_rnd2_def)
    then show False
      by (simp add: hashToken_def test_platform_def generateRefreshToken_def generateToken_def)
  qed
  have start: "0 < length [test_refresh_replay] \<and>
               rq_task ([test_refresh_replay] ! 0) = Refresh_Start \<and>
               rq_body ([test_refresh_replay] ! 0) ''refresh_token'' = Some ''shr_kb_kb1_RRRR''"
    by (simp add: test_refresh_replay_def test_refresh_body_def)
  from t [THEN conjunct2, THEN conjunct2, THEN conjunct2] later start
  have perm: "rejected_or_waiting
     (rq_task (snd (interleave test_platform test_db_rotated [test_refresh_replay] [(0, 6000)]) ! 0))"
    by blast
  from test_refresh replay perm show ?thesis by (simp add: INVALID_GRANT_def)
qed

section \<open>Revoked clients\<close>

lemma authorize_rejects_revoked_client:
  assumes "q ''client_id'' = Some clientId" "clientId \<noteq> []"
    and "q ''redirect_uri'' = Some redirectUri" "redirectUri \<noteq> []"
    and "q ''response_type'' = Some ''code''"
    and "q ''code_challenge'' = Some codeChallenge" "codeChallenge \<noteq> []"
    and "q ''code_challenge_method'' = Some ''S256''"
    and "\<forall>c \<in> set (oauth_clients db). oc_client_id c = clientId \<longrightarrow> oc_revoked_at c \<noteq> None"
  shows "GET_authorize P now rnd (Some userId) db url q =
           (db, oauthError P INVALID_CLIENT ''Invalid or revoked client'' (Some redirectUri)
                  (truthy (q ''state'')))"
proof -
  from assms(9) have "filter (\<lambda>c. oc_client_id c = clientId \<and> oc_revoked_at c = None \<and>
                                   kb_by_id db (oc_knowledge_base_id c) \<noteq> None)
                          (oauth_clients db) = []"
    by (auto simp: filter_empty_conv)
  with assms(1-8) show ?thesis
    by (simp add: GET_authorize_def truthy_def single_row_Nil)
qed

text \<open>
  C1. Operations that reference a revoked client. The authorization endpoint selects the
  client with \<open>revoked_at IS NULL\<close> and answers \<open>invalid_client\<close> for a revoked one
  (\<open>authorize_rejects_revoked_client\<close>). The token endpoint never reads \<open>oauth_clients\<close>:
  in the store below the owner revokes the client through \<open>DELETE /api/oauth/clients\<close>
  after a code was issued for it, the authorization endpoint then refuses the client, and
  yet the exchange of the code with its verifier is answered with a token pair, which
  the refresh grant then rotates.
\<close>

theorem revoked_client_code_exchange:
  "DELETE_clients test_platform 1500 (Some ''alice'') test_db_code
       (Some [''client_id'' \<mapsto> ''mcp_client_A'']) = (test_db_revoked, EmptyStatus 204) \<and>
   map oc_revoked_at (oauth_clients test_db_revoked) = [Some 1500] \<and>
   GET_authorize test_platform 1600 test_rnd2 (Some ''alice'') test_db_revoked
       ''https://app.test/api/oauth/authorize'' test_authorize_query =
     (test_db_revoked,
      OAuthErrorRedirect ''https://x.test/cb'' ''invalid_client'' ''Invalid or revoked client''
        (Some ''xyz'')) \<and>
   POST_token test_platform 2000 test_rnd test_db_revoked (Some ''application/json'')
       (Some test_exchange_body) =
     (test_db_revoked_exchanged,
      TokenJson ''sha_kb_kb1_AAAA'' ''Bearer'' 3600 ''shr_kb_kb1_RRRR'' ''search get_info'') \<and>
   status (snd (POST_token test_platform 3000 test_rnd2 test_db_revoked_exchanged
                  (Some ''application/json'') (Some test_refresh_body))) = 200"
proof (intro conjI)
  show "DELETE_clients test_platform 1500 (Some ''alice'') test_db_code
       (Some [''client_id'' \<mapsto> ''mcp_client_A'']) = (test_db_revoked, EmptyStatus 204)"
    by (simp add: DELETE_clients_def truthy_def test_db_code_def test_db_revoked_def test_db_def
        test_client_def)
  show "map oc_revoked_at (oauth_clients test_db_revoked) = [Some 1500]"
    by (simp add: test_db_revoked_def)
  show "GET_authorize test_platform 1600 test_rnd2 (Some ''alice'') test_db_revoked
       ''https://app.test/api/oauth/authorize'' test_authorize_query =
     (test_db_revoked,
      OAuthErrorRedirect ''https://x.test/cb'' ''invalid_client'' ''Invalid or revoked client''
        (Some ''xyz''))"
    by (simp add: GET_authorize_def truthy_def test_authorize_query_def test_db_revoked_def
        test_db_def test_client_def single_row_def oauthError_def test_platform_def
        INVALID_CLIENT_def)
  show "POST_token test_platform 2000 test_rnd test_db_revoked (Some ''application/json'')
       (Some test_exchange_body) =
     (test_db_revoked_exchanged,
      TokenJson ''sha_kb_kb1_AAAA'' ''Bearer'' 3600 ''shr_kb_kb1_RRRR'' ''search get_info'')"
    by (simp add: POST_token_def handleAuthorizationCode_def test_exchange_body_def
      test_db_revoked_def test_db_revoked_exchanged_def test_issued_token_def test_db_def
      test_code_def test_platform_def
      test_rnd_def truthy_def hashToken_def single_row_def validateCodeChallenge_def
      mark_code_used_def generateAccessToken_def generateRefreshToken_def generateToken_def
      PREFIX_ACCESS_def PREFIX_REFRESH_def EXPIRY_ACCESS_TOKEN_def EXPIRY_REFRESH_TOKEN_def
      insert_token_def token_conflict_def Let_def)
  show "status (snd (POST_token test_platform 3000 test_rnd2 test_db_revoked_exchanged
                  (Some ''application/json'') (Some test_refresh_body))) = 200"
    by (simp add: POST_token_def handleRefreshToken_def test_refresh_body_def
      test_db_revoked_def test_db_revoked_exchanged_def test_issued_token_def test_db_def
      test_platform_def test_rnd2_def truthy_def hashToken_def single_row_def
      generateAccessToken_def generateRefreshToken_def generateToken_def
      PREFIX_ACCESS_def PREFIX_REFRESH_def EXPIRY_ACCESS_TOKEN_def EXPIRY_REFRESH_TOKEN_def
      update_token_rotation_def rotate_token_def Let_def)
qed

section \<open>Properties of the gateway: entitlement at request time\<close>

lemma split_on_single: "split_on c s = [x] \<Longrightarrow> x = s"
proof (induction s arbitrary: x)
  case Nil
  then show ?case by simp
next
  case (Cons a s)
  show ?case
  proof (cases "a = c")
    case True
    with Cons.prems show ?thesis by (simp add: split_on_nonempty)
  next
    case False
    with Cons.prems obtain w ws where w: "split_on c s = w # ws" and x: "x = a # w" and "ws = []"
      using split_on_nonempty [of c s] by (auto split: list.splits)
    with Cons.IH [of w] show ?thesis by simp
  qed
qed

lemma split_on_append_sep:
  "c \<notin> set p \<Longrightarrow> split_on c (p @ c # s) = p # split_on c s"
  by (induction p) (auto split: list.splits)

lemma bearer_parts:
  assumes "length (split_on CHR '' '' (''Bearer '' @ token)) = 2"
  shows "split_on CHR '' '' (''Bearer '' @ token) ! 1 = token"
proof -
  have s: "split_on CHR '' '' (''Bearer '' @ token) = ''Bearer'' # split_on CHR '' '' token"
    using split_on_append_sep [of "CHR '' ''" "''Bearer''" token] by simp
  with assms have "length (split_on CHR '' '' token) = 1" by simp
  then obtain x where x: "split_on CHR '' '' token = [x]"
    by (cases "split_on CHR '' '' token") auto
  from split_on_single [OF x] have "x = token" .
  with s x show ?thesis by simp
qed

lemma validateAccessToken_lapsed:
  assumes "single_row (filter (\<lambda>t. access_token_hash t = h) (oauth_tokens db)) = Some t"
    and "kb_by_id db (tok_knowledge_base_id t) = Some kb"
    and "kb_pricing_model kb = Paid"
    and "tok_user_id t \<noteq> kb_user_id kb"
    and "subscription_lapsed now db t"
  shows "\<exists>msg. validateAccessToken now db h = (db, Some (invalid_result msg))"
  using assms
  by (auto simp: validateAccessToken_def subscription_lapsed_def Let_def
        split: option.splits if_splits)

lemma validateToken_lapsed:
  assumes "single_row (filter (\<lambda>t. access_token_hash t = sha256_hex P token) (oauth_tokens db)) = Some t"
    and "kb_by_id db (tok_knowledge_base_id t) = Some kb"
    and "kb_pricing_model kb = Paid"
    and "tok_user_id t \<noteq> kb_user_id kb"
    and "subscription_lapsed now db t"
  shows "\<exists>msg. validateToken P now db (Some (''Bearer '' @ token)) slug = (db, Some (invalid_result msg))"
proof -
  from validateAccessToken_lapsed [OF assms] obtain msg where
    v: "validateAccessToken now db (sha256_hex P token) = (db, Some (invalid_result msg))" by blast
  show ?thesis
  proof (cases "length (split_on CHR '' '' (''Bearer '' @ token)) = 2")
    case False
    then show ?thesis by (auto simp: validateToken_def truthy_def Let_def)
  next
    case True
    from bearer_parts [OF True] have p: "split_on CHR '' '' (''Bearer '' @ token) ! 1 = token" .
    show ?thesis
      using True p v
      by (auto simp: validateToken_def truthy_def Let_def invalid_result_def
            simp del: split_on.simps append.simps
            split: option.splits)
  qed
qed

lemma fetch_post_invalid:
  assumes "req_method request = ''POST''" and "mcp_route (req_path request) = Some slug"
    and "validateToken P now (store w) (req_authorization request) slug = (db1, Some (invalid_result msg))"
  shows "w_status (snd (fetch P now w request)) = 401"
  using assms
  by (simp add: fetch_def handle_post_def invalid_result_def Let_def split: prod.splits)

lemma hasKBAccess_lapsed:
  assumes "single_row (filter (\<lambda>k. kb_id k = kid) (knowledge_bases db)) = Some kb"
    and "kb_pricing_model kb = Paid"
    and "kb_user_id kb \<noteq> uid"
    and "\<forall>s \<in> set (kb_subscriptions db).
           sub_knowledge_base_id s = kid \<and> subscriber_id s = uid \<longrightarrow>
           (sub_status s \<noteq> Active \<and> sub_status s \<noteq> Trialing) \<or>
           (case current_period_end s of None \<Rightarrow> False | Some e \<Rightarrow> e < now)"
  shows "\<not> hasAccess (hasKBAccess now db kid uid)"
proof (cases "single_row (filter (\<lambda>s. sub_knowledge_base_id s = kid \<and> subscriber_id s = uid \<and>
                                  sub_status s \<in> set [Active, Trialing]) (kb_subscriptions db))")
  case None
  with assms(1-3) show ?thesis by (simp add: hasKBAccess_def)
next
  case (Some sub)
  then have "filter (\<lambda>s. sub_knowledge_base_id s = kid \<and> subscriber_id s = uid \<and>
                          sub_status s \<in> set [Active, Trialing]) (kb_subscriptions db) = [sub]"
    by (simp add: single_row_Some)
  then have "sub \<in> set (filter (\<lambda>s. sub_knowledge_base_id s = kid \<and> subscriber_id s = uid \<and>
                          sub_status s \<in> set [Active, Trialing]) (kb_subscriptions db))"
    by simp
  then have m: "sub \<in> set (kb_subscriptions db)" "sub_knowledge_base_id sub = kid"
    "subscriber_id sub = uid" "sub_status sub = Active \<or> sub_status sub = Trialing"
    by auto
  with assms(4) have "case current_period_end sub of None \<Rightarrow> False | Some e \<Rightarrow> e < now"
    by blast
  with assms(1-3) Some show ?thesis by (simp add: hasKBAccess_def)
qed

text \<open>
  C4. For a paid repository and a token of a user who is not its owner, with the linked
  subscription lapsed: \<open>validateAccessToken\<close> answers invalid without touching the store,
  whether or not the token itself has expired, and the gateway answers a POST that
  presents the token with 401. The entitlement resolver denies a principal who is not
  the owner of a paid repository when every subscription row of the principal for the
  repository has a status outside \<open>active\<close>/\<open>trialing\<close> or a period end in the past (which
  includes there being no row).
\<close>

theorem lapsed_subscription_denied:
  "(single_row (filter (\<lambda>t. access_token_hash t = sha256_hex P token) (oauth_tokens (store w)))
      = Some t \<and>
    kb_by_id (store w) (tok_knowledge_base_id t) = Some kb \<and>
    kb_pricing_model kb = Paid \<and> tok_user_id t \<noteq> kb_user_id kb \<and>
    subscription_lapsed now (store w) t \<longrightarrow>
      (\<exists>msg. validateAccessToken now (store w) (sha256_hex P token) =
               (store w, Some (invalid_result msg))) \<and>
      (req_method request = ''POST'' \<and> mcp_route (req_path request) = Some slug \<and>
       req_authorization request = Some (''Bearer '' @ token) \<longrightarrow>
         w_status (snd (fetch P now w request)) = 401)) \<and>
   (single_row (filter (\<lambda>k. kb_id k = kid) (knowledge_bases db)) = Some kb2 \<and>
    kb_pricing_model kb2 = Paid \<and> kb_user_id kb2 \<noteq> uid \<and>
    (\<forall>s \<in> set (kb_subscriptions db).
        sub_knowledge_base_id s = kid \<and> subscriber_id s = uid \<longrightarrow>
        (sub_status s \<noteq> Active \<and> sub_status s \<noteq> Trialing) \<or>
        (case current_period_end s of None \<Rightarrow> False | Some e \<Rightarrow> e < now)) \<longrightarrow>
      \<not> hasAccess (hasKBAccess now db kid uid))"
proof (intro conjI impI)
  assume a: "single_row (filter (\<lambda>t. access_token_hash t = sha256_hex P token) (oauth_tokens (store w)))
      = Some t \<and>
    kb_by_id (store w) (tok_knowledge_base_id t) = Some kb \<and>
    kb_pricing_model kb = Paid \<and> tok_user_id t \<noteq> kb_user_id kb \<and>
    subscription_lapsed now (store w) t"
  then show "\<exists>msg. validateAccessToken now (store w) (sha256_hex P token) =
               (store w, Some (invalid_result msg))"
    using validateAccessToken_lapsed by blast
  assume r: "req_method request = ''POST'' \<and> mcp_route (req_path request) = Some slug \<and>
       req_authorization request = Some (''Bearer '' @ token)"
  from a obtain msg where
    "validateToken P now (store w) (Some (''Bearer '' @ token)) slug =
       (store w, Some (invalid_result msg))"
    using validateToken_lapsed by blast
  with r show "w_status (snd (fetch P now w request)) = 401"
    using fetch_post_invalid [of request slug P now w "store w" msg] by simp
next
  assume "single_row (filter (\<lambda>k. kb_id k = kid) (knowledge_bases db)) = Some kb2 \<and>
    kb_pricing_model kb2 = Paid \<and> kb_user_id kb2 \<noteq> uid \<and>
    (\<forall>s \<in> set (kb_subscriptions db).
        sub_knowledge_base_id s = kid \<and> subscriber_id s = uid \<longrightarrow>
        (sub_status s \<noteq> Active \<and> sub_status s \<noteq> Trialing) \<or>
        (case current_period_end s of None \<Rightarrow> False | Some e \<Rightarrow> e < now))"
  then show "\<not> hasAccess (hasKBAccess now db kid uid)"
    using hasKBAccess_lapsed [of kid db kb2 uid now] by blast
qed

lemma test_validate:
  "validateAccessToken 2000 (store test_world) ''h:sha_kb_kb1_AAAA'' =
     (store test_world, Some (invalid_result ''Subscription is not active''))"
  by (simp add: validateAccessToken_def test_world_def test_db_def test_token_def test_kb_def
      test_sub_pastdue_def single_row_def kb_by_id_def truthy_def Let_def)

theorem lapsed_subscription_denied_witness:
  "2000 < tok_expires_at test_token \<and>
   validateAccessToken 2000 (store test_world) ''h:sha_kb_kb1_AAAA'' =
     (store test_world, Some (invalid_result ''Subscription is not active'')) \<and>
   w_status (snd (fetch test_platform 2000 test_world test_request)) = 401 \<and>
   \<not> hasAccess (hasKBAccess 2000 (store test_world) ''kb1-0000'' ''bob'')"
proof -
  note t = lapsed_subscription_denied [where P = test_platform and token = "''sha_kb_kb1_AAAA''"
      and w = test_world and t = test_token and kb = test_kb and now = 2000
      and request = test_request and slug = "''docs''" and kid = "''kb1-0000''"
      and db = "store test_world" and ?kb2.0 = test_kb and uid = "''bob''"]
  have h1: "single_row (filter (\<lambda>t. access_token_hash t = sha256_hex test_platform ''sha_kb_kb1_AAAA'')
                          (oauth_tokens (store test_world))) = Some test_token \<and>
    kb_by_id (store test_world) (tok_knowledge_base_id test_token) = Some test_kb \<and>
    kb_pricing_model test_kb = Paid \<and> tok_user_id test_token \<noteq> kb_user_id test_kb \<and>
    subscription_lapsed 2000 (store test_world) test_token"
    by (simp add: test_world_def test_db_def test_token_def test_kb_def test_platform_def
        test_sub_pastdue_def single_row_def kb_by_id_def subscription_lapsed_def truthy_def)
  have h2: "req_method test_request = ''POST'' \<and> mcp_route (req_path test_request) = Some ''docs'' \<and>
       req_authorization test_request = Some (''Bearer '' @ ''sha_kb_kb1_AAAA'')"
    by (simp add: test_request_def mcp_route_def slug_char_def)
  have h3: "single_row (filter (\<lambda>k. kb_id k = ''kb1-0000'') (knowledge_bases (store test_world)))
              = Some test_kb \<and>
    kb_pricing_model test_kb = Paid \<and> kb_user_id test_kb \<noteq> ''bob'' \<and>
    (\<forall>s \<in> set (kb_subscriptions (store test_world)).
        sub_knowledge_base_id s = ''kb1-0000'' \<and> subscriber_id s = ''bob'' \<longrightarrow>
        (sub_status s \<noteq> Active \<and> sub_status s \<noteq> Trialing) \<or>
        (case current_period_end s of None \<Rightarrow> False | Some e \<Rightarrow> e < 2000))"
    by (simp add: test_world_def test_db_def test_kb_def test_sub_pastdue_def single_row_def)
  from t [THEN conjunct1, THEN mp, OF h1, THEN conjunct2, THEN mp, OF h2]
  have f: "w_status (snd (fetch test_platform 2000 test_world test_request)) = 401" .
  from t [THEN conjunct2, THEN mp, OF h3]
  have g: "\<not> hasAccess (hasKBAccess 2000 (store test_world) ''kb1-0000'' ''bob'')" .
  have e: "2000 < tok_expires_at test_token" by (simp add: test_token_def)
  from e test_validate f g show ?thesis by simp
qed

section \<open>Properties of the gateway: unknown repositories\<close>

lemma validateToken_unknown_slug:
  assumes "getKnowledgeBaseBySlug db slug = None"
  shows "\<exists>msg. validateToken P now db authHeader slug = (db, Some (invalid_result msg))"
  using assms
  by (auto simp: validateToken_def Let_def split: option.splits)

lemma gateway_unknown_slug_401:
  assumes "req_method request = ''POST''" and "mcp_route (req_path request) = Some slug"
    and "getKnowledgeBaseBySlug (store w) slug = None"
  shows "w_status (snd (fetch P now w request)) = 401"
proof -
  from validateToken_unknown_slug [OF assms(3)] obtain msg where
    "validateToken P now (store w) (req_authorization request) slug =
       (store w, Some (invalid_result msg))" by blast
  with assms(1,2) show ?thesis by (rule fetch_post_invalid)
qed

lemma web_route_unknown_slug_404:
  assumes "getKnowledgeBaseBySlug db slug = None"
  shows "status (POST_mcp db slug body tool_throws) = 404"
  using assms by (simp add: POST_mcp_def getKnowledgeBaseBySlug_def)

lemma toLowerCase_Bearer: "toLowerCase ''Bearer'' = ''bearer''"
  by code_simp

text \<open>
  C8. A slug that resolves to no gateway-enabled repository. The worker looks the
  repository up inside \<open>validateToken\<close> and answers every failed validation with 401
  (\<open>gateway_unknown_slug_401\<close>, for every Authorization header), so the request below, with
  a well-formed bearer token and an unknown slug, is answered 401 and not 404. The web
  application's route for the same protocol answers 404 (\<open>web_route_unknown_slug_404\<close>).
\<close>

theorem gateway_unknown_slug:
  "getKnowledgeBaseBySlug (store test_world) ''unknown-kb'' = None \<and>
   fetch test_platform 2000 test_world test_request_unknown =
     (test_world, \<lparr>w_status = 401,
                   w_message = Some ''Knowledge base not found or MCP not enabled'',
                   w_rate = None\<rparr>)"
  by (simp add: fetch_def handle_post_def log_request_def validateToken_def
      getKnowledgeBaseBySlug_def test_request_unknown_def test_request_def test_world_def
      test_db_def test_kb_def mcp_route_def slug_char_def truthy_def toLowerCase_Bearer
      single_row_def invalid_result_def Let_def)

section \<open>Properties of the entitlement resolver\<close>











end
